theory Spec2Isabelle
  imports Main "HOL-Library.Word"
begin

unbundle bit_operations_syntax

section \<open>The AOTInductor model runtime (aoti_runtime/model.h)\<close>

text \<open>
  The header is compiled in one of three ways: with \<open>USE_CUDA\<close>, with \<open>USE_XPU\<close>, or
  with neither (the pure CPU build). Two further macros select the self-mapping payload
  accessor (\<open>USE_MMAP_SELF\<close>) and the older tensor constructor
  (\<open>AOTI_USE_CREATE_TENSOR_FROM_BLOB_V1\<close>). The model takes the macros as a value.
\<close>

datatype build = PureCPU | UseCUDA | UseXPU

record config =
  build :: build
  use_mmap_self :: bool
  use_create_tensor_from_blob_v1 :: bool

type_synonym size_t = "64 word"
type_synonym byte = "8 word"

text \<open>
  The device types are the values of \<open>aoti_torch_device_type_cpu()\<close>,
  \<open>aoti_torch_device_type_cuda()\<close> and \<open>aoti_torch_device_type_xpu()\<close>, three distinct
  constants of the C shim.
\<close>

datatype device_kind = DeviceCPU | DeviceCUDA | DeviceXPU

text \<open>Every \<open>throw\<close> of the header is a value of this type.\<close>

datatype error =
    InvalidDevice string            \<comment> \<open>"Invalid device: " + device_str\<close>
  | StoiOutOfRange                  \<comment> \<open>\<open>std::out_of_range\<close> of \<open>stoi\<close>\<close>
  | VectorOutOfRange                \<comment> \<open>\<open>std::out_of_range\<close> of \<open>vector::at\<close>\<close>
  | ConstantsMapNotReady            \<comment> \<open>"constants_map_ was not ready when constants_ ..."\<close>
  | NullDereference                 \<comment> \<open>a member call through a null \<open>shared_ptr\<close>\<close>
  | SkipCopyUnsupported             \<comment> \<open>"pure cpu mode doesn't support skip copy"\<close>
  | OpaqueMetadataNotEmpty          \<comment> \<open>"Expect opaque_metadata_size to be 0 when ..."\<close>
  | TorchError                      \<comment> \<open>\<open>AOTI_TORCH_ERROR_CODE_CHECK\<close> failed\<close>
  | DeviceError                     \<comment> \<open>\<open>AOTI_RUNTIME_DEVICE_CHECK\<close> failed\<close>
  | RunImplError                    \<comment> \<open>the generated \<open>run_impl\<close> threw\<close>
  | EventNotInitialized             \<comment> \<open>"Model CUDA/XPU event was not initialized"\<close>
  | ModelDidNotFinish               \<comment> \<open>"The model did not finish successfully. ..."\<close>
  | SharedLibraryNameNotFound       \<comment> \<open>"Can't find shared library name"\<close>
  | SharedLibraryCannotBeOpened     \<comment> \<open>"Shared library file cannot be opened"\<close>
  | WeightsOffsetNotAligned         \<comment> \<open>"weights_offset must be aligned to 16K boundary"\<close>
  | MmapFailed                      \<comment> \<open>"mmap() failed"\<close>
  | WeightsCorrupt                  \<comment> \<open>"Weigths data seems corrupt"\<close>
  | ReadOutsideMapping              \<comment> \<open>a read before the start of the mapping\<close>

definition bind_err :: "error + 'a \<Rightarrow> ('a \<Rightarrow> error + 'b) \<Rightarrow> error + 'b" where
  "bind_err r f = (case r of Inl e \<Rightarrow> Inl e | Inr v \<Rightarrow> f v)"

subsection \<open>parse_device_str\<close>

text \<open>
  \<open>std::regex_match\<close> against \<open>(cpu|cuda|xpu)(:([0-9]+))?\<close>: the whole string must
  match. No alternative of the first group is a prefix of another, so at most one applies.
  The result is the pair of sub-match 1 and, when it took part in the match, sub-match 3.
\<close>

definition is_digit :: "char \<Rightarrow> bool" where
  "is_digit c = (c \<in> set ''0123456789'')"

definition match_kind :: "string \<Rightarrow> (string \<times> string) option" where
  "match_kind s =
     (if take 3 s = ''cpu'' then Some (''cpu'', drop 3 s)
      else if take 4 s = ''cuda'' then Some (''cuda'', drop 4 s)
      else if take 3 s = ''xpu'' then Some (''xpu'', drop 3 s)
      else None)"

definition regex_match_device :: "string \<Rightarrow> (string \<times> string option) option" where
  "regex_match_device s =
     (case match_kind s of
        None \<Rightarrow> None
      | Some (kind, rest) \<Rightarrow>
          (case rest of
             [] \<Rightarrow> Some (kind, None)
           | c # ds \<Rightarrow>
               if c = CHR '':'' \<and> ds \<noteq> [] \<and> list_all is_digit ds
               then Some (kind, Some ds) else None))"

text \<open>
  \<open>stoi\<close> on a non-empty string of decimal digits: the decimal value, or
  \<open>std::out_of_range\<close> when it does not fit an \<open>int\<close>.
\<close>

definition digit_val :: "char \<Rightarrow> int" where
  "digit_val c = int (of_char c) - 48"

definition decimal :: "string \<Rightarrow> int" where
  "decimal ds = foldl (\<lambda>acc c. 10 * acc + digit_val c) 0 ds"

definition stoi :: "string \<Rightarrow> error + int" where
  "stoi ds = (if decimal ds \<le> 2147483647 then Inr (decimal ds) else Inl StoiOutOfRange)"

text \<open>
  The branch for \<open>xpu\<close> exists only under \<open>USE_XPU\<close>; without it the string falls
  through to the final \<open>AOTI_RUNTIME_CHECK(false, ...)\<close>.
\<close>

definition parse_device_str :: "build \<Rightarrow> string \<Rightarrow> error + (device_kind \<times> int)" where
  "parse_device_str b device_str =
     (case regex_match_device device_str of
        None \<Rightarrow> Inl (InvalidDevice device_str)
      | Some (sm1, sm3) \<Rightarrow>
          bind_err
            (if sm1 = ''cpu'' then Inr DeviceCPU
             else if sm1 = ''cuda'' then Inr DeviceCUDA
             else if b = UseXPU \<and> sm1 = ''xpu'' then Inr DeviceXPU
             else Inl (InvalidDevice device_str))
            (\<lambda>device_type.
               case sm3 of
                 Some ds \<Rightarrow> bind_err (stoi ds) (\<lambda>device_idx. Inr (device_type, device_idx))
               | None \<Rightarrow> Inr (device_type, - 1)))"

text \<open>The form \<open>kind[:index]\<close> in the words of the specification.\<close>

definition kind_index_form :: "string \<Rightarrow> bool" where
  "kind_index_form s =
     (\<exists>kind \<in> {''cpu'', ''cuda'', ''xpu''}.
        s = kind \<or> (\<exists>ds. ds \<noteq> [] \<and> list_all is_digit ds \<and> s = kind @ CHR '':'' # ds))"

subsection \<open>Descriptors and the metadata accessors\<close>

text \<open>
  \<open>ParamInfo\<close> and \<open>ConstInfo\<close>. The field \<open>offset\<close> is an \<open>int64_t\<close> that the header
  reads back as \<open>size_t\<close>; it is kept as its 64 bits, so that the conversion changes
  nothing and \<open>unat\<close> is the value the caller sees.
\<close>

record ParamInfo =
  param_name :: string

record ConstInfo =
  info_name :: string
  info_shape :: "int list"
  info_stride :: "int list"
  info_dtype :: int
  info_offset :: "64 word"
  info_data_size :: size_t
  info_layout :: int
  info_opaque_metadata :: "byte list"
  info_opaque_metadata_size :: int
  info_original_fqn :: string
  info_from_folded :: bool
  info_type :: int

text \<open>
  \<open>std::vector::at\<close> called with an \<open>int64_t\<close>: the argument is converted to
  \<open>size_t\<close> (the same 64 bits read as unsigned) and checked against the size.
\<close>

definition vector_at :: "'a list \<Rightarrow> 64 word \<Rightarrow> error + 'a" where
  "vector_at xs idx = (if unat idx < length xs then Inr (xs ! unat idx) else Inl VectorOutOfRange)"


subsection \<open>The state of a model instance\<close>

text \<open>
  Addresses are kept symbolic: an offset from \<open>_get_constants_start()\<close> (the payload),
  an offset from \<open>constant_blob_.get()\<close> (the device blob), or \<open>nullptr\<close>.
\<close>

datatype ptr = Nullptr | ConstantsStart size_t | BlobPtr size_t

fun ptr_add :: "ptr \<Rightarrow> size_t \<Rightarrow> ptr" where
  "ptr_add Nullptr n = Nullptr"
| "ptr_add (ConstantsStart a) n = ConstantsStart (a + n)"
| "ptr_add (BlobPtr a) n = BlobPtr (a + n)"

text \<open>
  The arguments of \<open>aoti_torch_create_tensor_from_blob\<close>; the last field holds the three
  further arguments of \<open>aoti_torch_create_tensor_from_blob_v2\<close>.
\<close>

record tensor_args =
  ta_data :: ptr
  ta_ndim :: nat
  ta_sizes :: "int list"
  ta_strides :: "int list"
  ta_storage_offset :: "64 word"
  ta_dtype :: int
  ta_device_type :: device_kind
  ta_device_index :: int
  ta_v2 :: "(int \<times> byte list \<times> nat) option"

text \<open>
  The calls that leave the instance are recorded in the order they are made: the device
  allocation, each copy out of the payload (destination, source, size) and each tensor
  construction.
\<close>

datatype effect =
    GpuMalloc size_t
  | Memcpy ptr ptr size_t
  | CreateTensor tensor_args

text \<open>
  What the self-mapping accessor finds outside the instance: whether \<open>dladdr\<close> and
  \<open>open\<close> succeed, the bytes of the shared library, whether \<open>mmap\<close> succeeds, and the
  two 64-bit words at \<open>_binary_constants_bin_start\<close>.
\<close>

record artifact =
  dladdr_ok :: bool
  open_ok :: bool
  file_bytes :: "byte list"
  mmap_ok :: bool
  header_weights_size :: "64 word"
  header_magic_number :: "64 word"

text \<open>
  The collaborators of \<open>load_constants\<close>: the results of \<open>cudaMalloc\<close> and
  \<open>cudaMemcpy\<close>, the tensor constructor of the shim (\<open>None\<close> is an error code), and the
  artifact. The handle type \<open>'h\<close> is left open.
\<close>

record 'h env =
  gpu_malloc_ok :: "size_t \<Rightarrow> bool"
  memcpy_ok :: "ptr \<Rightarrow> ptr \<Rightarrow> size_t \<Rightarrow> bool"
  create_tensor_from_blob :: "tensor_args \<Rightarrow> 'h option"
  artifact :: artifact

text \<open>
  The members of \<open>AOTInductorModelBase\<close>, named as in the header without the trailing
  underscore (\<open>constants\<close> is \<open>constants_\<close>). A \<open>shared_ptr\<close> is an option: \<open>None\<close>
  is the null pointer. A slot of the constants array is \<open>None\<close> while it holds a
  default-constructed \<open>ConstantHandle\<close>. \<open>run_finished_\<close> is a \<open>bool\<close> in the pure CPU
  build (\<open>run_finished_flag\<close>) and an optional event otherwise; \<open>run_finished_event\<close>
  says whether the optional holds an event. \<open>trace\<close> is the record of effects.

  Modelled from the spec: \<open>completion_reached\<close>, the state of the completion marker in
  the device runtime, which is not part of the header. The specification has the marker
  pending once a run has recorded it and complete once it has resolved, and has
  \<open>wait_for_completion\<close> block until the marker resolves. So a wait that has returned
  leaves the marker complete, it stays complete until a run records a new one, and a poll
  of a complete marker answers complete. Whether a pending marker has resolved in the
  meantime is the answer of the device, given with each call.
\<close>

record 'h model =
  inputs_info :: "ParamInfo list"
  outputs_info :: "ParamInfo list"
  constants_info :: "ConstInfo list"
  constants_map :: "(string \<rightharpoonup> 'h) option"
  constants :: "'h option list option"
  constant_blob :: "size_t option"
  self_mmap :: "byte list option"
  include_weights :: bool
  run_finished_flag :: bool
  run_finished_event :: bool
  completion_reached :: bool
  device_type :: device_kind
  device_idx :: int
  trace :: "effect list"

subsection \<open>Metadata accessors\<close>

definition num_inputs :: "'h model \<Rightarrow> nat" where
  "num_inputs m = length (inputs_info m)"

definition num_outputs :: "'h model \<Rightarrow> nat" where
  "num_outputs m = length (outputs_info m)"

definition num_constants :: "'h model \<Rightarrow> nat" where
  "num_constants m = length (constants_info m)"

definition input_name :: "'h model \<Rightarrow> 64 word \<Rightarrow> error + string" where
  "input_name m idx = bind_err (vector_at (inputs_info m) idx) (\<lambda>p. Inr (param_name p))"

definition output_name :: "'h model \<Rightarrow> 64 word \<Rightarrow> error + string" where
  "output_name m idx = bind_err (vector_at (outputs_info m) idx) (\<lambda>p. Inr (param_name p))"

definition constant_name :: "'h model \<Rightarrow> 64 word \<Rightarrow> error + string" where
  "constant_name m idx = bind_err (vector_at (constants_info m) idx) (\<lambda>c. Inr (info_name c))"

definition constant_ndim :: "'h model \<Rightarrow> 64 word \<Rightarrow> error + nat" where
  "constant_ndim m idx =
     bind_err (vector_at (constants_info m) idx) (\<lambda>c. Inr (length (info_shape c)))"

definition constant_shape :: "'h model \<Rightarrow> 64 word \<Rightarrow> error + int list" where
  "constant_shape m idx = bind_err (vector_at (constants_info m) idx) (\<lambda>c. Inr (info_shape c))"

definition constant_stride :: "'h model \<Rightarrow> 64 word \<Rightarrow> error + int list" where
  "constant_stride m idx = bind_err (vector_at (constants_info m) idx) (\<lambda>c. Inr (info_stride c))"

definition constant_dtype :: "'h model \<Rightarrow> 64 word \<Rightarrow> error + int" where
  "constant_dtype m idx = bind_err (vector_at (constants_info m) idx) (\<lambda>c. Inr (info_dtype c))"

definition constant_layout :: "'h model \<Rightarrow> 64 word \<Rightarrow> error + int" where
  "constant_layout m idx = bind_err (vector_at (constants_info m) idx) (\<lambda>c. Inr (info_layout c))"

definition constant_offset :: "'h model \<Rightarrow> 64 word \<Rightarrow> error + size_t" where
  "constant_offset m idx = bind_err (vector_at (constants_info m) idx) (\<lambda>c. Inr (info_offset c))"

definition constant_data_size :: "'h model \<Rightarrow> 64 word \<Rightarrow> error + size_t" where
  "constant_data_size m idx =
     bind_err (vector_at (constants_info m) idx) (\<lambda>c. Inr (info_data_size c))"

definition constant_original_fqn :: "'h model \<Rightarrow> 64 word \<Rightarrow> error + string" where
  "constant_original_fqn m idx =
     bind_err (vector_at (constants_info m) idx) (\<lambda>c. Inr (info_original_fqn c))"

definition opaque_metadata :: "'h model \<Rightarrow> 64 word \<Rightarrow> error + byte list" where
  "opaque_metadata m idx =
     bind_err (vector_at (constants_info m) idx) (\<lambda>c. Inr (info_opaque_metadata c))"

definition opaque_metadata_size :: "'h model \<Rightarrow> 64 word \<Rightarrow> error + nat" where
  "opaque_metadata_size m idx =
     bind_err (vector_at (constants_info m) idx) (\<lambda>c. Inr (length (info_opaque_metadata c)))"

definition constant_from_folded :: "'h model \<Rightarrow> 64 word \<Rightarrow> error + bool" where
  "constant_from_folded m idx =
     bind_err (vector_at (constants_info m) idx) (\<lambda>c. Inr (info_from_folded c))"

definition constant_type :: "'h model \<Rightarrow> 64 word \<Rightarrow> error + int" where
  "constant_type m idx = bind_err (vector_at (constants_info m) idx) (\<lambda>c. Inr (info_type c))"

subsection \<open>The constant registry\<close>

text \<open>\<open>std::vector::resize\<close>: cut, or fill up with default-constructed handles.\<close>

definition resize :: "nat \<Rightarrow> 'h option list \<Rightarrow> 'h option list" where
  "resize n xs = take n xs @ replicate (n - length xs) None"

text \<open>
  The loop of \<open>update_constants_array_from_map\<close> over \<open>constants_info_\<close>, with its
  counter \<open>idx\<close>. A slot is written only when \<open>find\<close> succeeds.
\<close>

fun remap_loop ::
  "(string \<rightharpoonup> 'h) \<Rightarrow> ConstInfo list \<Rightarrow> nat \<Rightarrow> 'h option list \<Rightarrow> error + 'h option list" where
  "remap_loop cm [] idx arr = Inr arr"
| "remap_loop cm (info # infos) idx arr =
     (case cm (info_name info) of
        Some h \<Rightarrow>
          if idx < length arr then remap_loop cm infos (Suc idx) (arr[idx := Some h])
          else Inl VectorOutOfRange
      | None \<Rightarrow> remap_loop cm infos (Suc idx) arr)"

definition update_constants_array_from_map :: "'h model \<Rightarrow> error + 'h model" where
  "update_constants_array_from_map m =
     (case constants_map m of
        None \<Rightarrow> Inl ConstantsMapNotReady
      | Some cm \<Rightarrow>
          let n = length (constants_info m);
              arr = (case constants m of None \<Rightarrow> replicate n None | Some old \<Rightarrow> resize n old)
          in bind_err (remap_loop cm (constants_info m) 0 arr)
               (\<lambda>arr'. Inr (m\<lparr>constants := Some arr'\<rparr>)))"

definition update_constants_map ::
  "'h model \<Rightarrow> (string \<rightharpoonup> 'h) option \<Rightarrow> bool \<Rightarrow> error + 'h model" where
  "update_constants_map m new_map remap_constants_array =
     (let m' = m\<lparr>constants_map := new_map\<rparr>
      in if remap_constants_array then update_constants_array_from_map m' else Inr m')"

definition update_constants_array :: "'h model \<Rightarrow> 'h option list option \<Rightarrow> 'h model" where
  "update_constants_array m constants_array = m\<lparr>constants := constants_array\<rparr>"

text \<open>The number of unset slots of the constants array.\<close>

definition unset_slots :: "'h model \<Rightarrow> nat" where
  "unset_slots m = (case constants m of None \<Rightarrow> 0 | Some arr \<Rightarrow> length (filter (\<lambda>s. s = None) arr))"

subsection \<open>compute_gpu_constant_blob\<close>

text \<open>
  The body exists only under \<open>USE_CUDA\<close> or \<open>USE_XPU\<close>; in the pure CPU build both
  reference arguments come back as they were. \<open>AOTI_CONST_GPU_ALIGNMENT\<close> is 64 and all
  arithmetic is that of \<open>size_t\<close>. Inside the loop \<open>i < num_constants\<close>, so
  \<open>constant_data_size(i)\<close> cannot throw and the list is read directly.
\<close>

fun blob_loop ::
  "ConstInfo list \<Rightarrow> nat list \<Rightarrow> size_t \<times> size_t list \<Rightarrow> size_t \<times> size_t list" where
  "blob_loop infos [] acc = acc"
| "blob_loop infos (i # is) (blob_size, constants_internal_offset) =
     (let data_size = info_data_size (infos ! i);
          data_size = (if data_size mod 64 \<noteq> 0 then 64 + (data_size div 64) * 64 else data_size)
      in blob_loop infos is (blob_size + data_size, constants_internal_offset[i := blob_size]))"

definition compute_gpu_constant_blob ::
  "config \<Rightarrow> ConstInfo list \<Rightarrow> size_t \<times> size_t list \<Rightarrow> size_t \<times> size_t list" where
  "compute_gpu_constant_blob cfg infos args =
     (if build cfg = PureCPU then args
      else blob_loop infos [0..<length infos] (0, snd args))"

text \<open>
  Rounding up to a multiple of 64, and the layout, in the words of the specification
  (on natural numbers, without wrap-around).
\<close>

definition round_up_64 :: "nat \<Rightarrow> nat" where
  "round_up_64 n = ((n + 63) div 64) * 64"

definition aligned_sizes :: "ConstInfo list \<Rightarrow> nat list" where
  "aligned_sizes infos = map (\<lambda>c. round_up_64 (unat (info_data_size c))) infos"


subsection \<open>The binary payload accessor\<close>

text \<open>
  A \<open>uint64_t\<close> read from eight bytes, least significant byte first.
\<close>

definition read_u64 :: "byte list \<Rightarrow> 64 word" where
  "read_u64 bs = foldr (\<lambda>b acc. ucast b + 256 * acc) (take 8 bs) 0"

text \<open>
  The bytes of a private mapping of the file, \<open>len\<close> bytes from \<open>off\<close>: the bytes of
  the file, and zeros past its end.
\<close>

definition mmap_region :: "byte list \<Rightarrow> nat \<Rightarrow> nat \<Rightarrow> byte list" where
  "mmap_region file off len =
     (let bs = take len (drop off file) in bs @ replicate (len - length bs) 0)"

text \<open>
  \<open>_get_constants_start\<close>. Without \<open>USE_MMAP_SELF\<close> it is the linked symbol. With it,
  the mapping is made once and kept in \<open>self_mmap\<close>; the assignment to \<open>self_mmap\<close>
  comes before the check of the trailing magic number, so the state is returned also when
  the call throws. \<open>fsize - weights_size\<close> is computed in \<open>uint64_t\<close>. The trailing word
  is read at \<open>self_mmap + weights_size - 8\<close>, which lies before the mapping when
  \<open>weights_size < 8\<close>; that read is a value of its own here.
\<close>

definition get_constants_start ::
  "config \<Rightarrow> artifact \<Rightarrow> 'h model \<Rightarrow> 'h model \<times> (error + ptr)" where
  "get_constants_start cfg art m =
     (if \<not> use_mmap_self cfg then (m, Inr (ConstantsStart 0))
      else if self_mmap m \<noteq> None then (m, Inr (ConstantsStart 0))
      else if \<not> dladdr_ok art then (m, Inl SharedLibraryNameNotFound)
      else if \<not> open_ok art then (m, Inl SharedLibraryCannotBeOpened)
      else
        let fsize = (of_nat (length (file_bytes art)) :: 64 word);
            weights_size = header_weights_size art;
            magic_number = header_magic_number art;
            weights_offset = fsize - weights_size
        in if weights_offset AND 0x3fff \<noteq> 0 then (m, Inl WeightsOffsetNotAligned)
           else if \<not> mmap_ok art then (m, Inl MmapFailed)
           else
             let mapping = mmap_region (file_bytes art) (unat weights_offset) (unat weights_size);
                 m' = m\<lparr>self_mmap := Some mapping\<rparr>
             in if unat weights_size < 8 then (m', Inl ReadOutsideMapping)
                else if read_u64 (drop (unat weights_size - 8) mapping) \<noteq> magic_number
                then (m', Inl WeightsCorrupt)
                else (m', Inr (ConstantsStart 0)))"

subsection \<open>The constant loader\<close>

text \<open>
  \<open>constant_ptr\<close> (its first parameter, \<open>constant_offset\<close>, is \<open>offset_in_blob\<close>
  here). With \<open>USE_CUDA\<close> or \<open>USE_XPU\<close> the destination lies in the blob and
  the bytes are copied from the payload at \<open>bytes_read\<close> unless \<open>skip_copy\<close>; only the
  CUDA copy is checked. In the pure CPU build the pointer into the payload is returned.
\<close>

definition constant_ptr ::
  "config \<Rightarrow> 'h env \<Rightarrow> 'h model \<Rightarrow> size_t \<Rightarrow> size_t \<Rightarrow> size_t \<Rightarrow> bool \<Rightarrow> error + ('h model \<times> ptr)" where
  "constant_ptr cfg env m offset_in_blob bytes_read data_size skip_copy =
     (if build cfg = PureCPU then
        (if skip_copy then Inl SkipCopyUnsupported
         else case get_constants_start cfg (artifact env) m of
                (m', r) \<Rightarrow> bind_err r (\<lambda>start. Inr (m', ptr_add start bytes_read)))
      else
        (let internal_ptr = BlobPtr offset_in_blob
         in if skip_copy then Inr (m, internal_ptr)
            else case get_constants_start cfg (artifact env) m of
                   (m', r) \<Rightarrow>
                     bind_err r (\<lambda>start.
                       let src = ptr_add start bytes_read
                       in if build cfg = UseCUDA \<and> \<not> memcpy_ok env internal_ptr src data_size
                          then Inl DeviceError
                          else Inr (m'\<lparr>trace := trace m' @ [Memcpy internal_ptr src data_size]\<rparr>,
                                    internal_ptr))))"

text \<open>\<open>unordered_map::emplace\<close>: an existing entry of the same key is kept.\<close>

definition emplace :: "(string \<rightharpoonup> 'h) \<Rightarrow> string \<Rightarrow> 'h \<Rightarrow> (string \<rightharpoonup> 'h)" where
  "emplace cm k v = (if cm k = None then cm(k \<mapsto> v) else cm)"

text \<open>
  One iteration of the loop of \<open>load_constants\<close>, for ordinal \<open>i\<close>, on the instance and
  the read cursor \<open>bytes_read\<close>. The accessors are called with \<open>i < num_constants\<close> and
  cannot throw, and \<open>constants_internal_offset\<close> has \<open>num_constants\<close> elements; the
  lists are read directly.
\<close>

definition load_constant ::
  "config \<Rightarrow> 'h env \<Rightarrow> size_t list \<Rightarrow> nat \<Rightarrow> 'h model \<times> size_t \<Rightarrow> error + ('h model \<times> size_t)" where
  "load_constant cfg env constants_internal_offset i st =
     (case st of (m, bytes_read) \<Rightarrow>
        let info = constants_info m ! i;
            from_folded = info_from_folded info
        in if build cfg = PureCPU \<and> from_folded then Inr (m, bytes_read)
           else
             let name = info_name info;
                 data_size = info_data_size info
             in bind_err
                  (if data_size \<noteq> 0
                   then constant_ptr cfg env m (constants_internal_offset ! i)
                          bytes_read data_size from_folded
                   else Inr (m, Nullptr))
                  (\<lambda>(m1, internal_ptr).
                     let bytes_read' = bytes_read + data_size;
                         args = \<lparr>ta_data = internal_ptr,
                                 ta_ndim = length (info_shape info),
                                 ta_sizes = info_shape info,
                                 ta_strides = info_stride info,
                                 ta_storage_offset = info_offset info,
                                 ta_dtype = info_dtype info,
                                 ta_device_type = device_type m1,
                                 ta_device_index = device_idx m1,
                                 ta_v2 = (if use_create_tensor_from_blob_v1 cfg then None
                                          else Some (info_layout info, info_opaque_metadata info,
                                                     length (info_opaque_metadata info)))\<rparr>
                     in if use_create_tensor_from_blob_v1 cfg
                           \<and> length (info_opaque_metadata info) \<noteq> 0
                        then Inl OpaqueMetadataNotEmpty
                        else
                          (case create_tensor_from_blob env args of
                             None \<Rightarrow> Inl TorchError
                           | Some tensor_handle \<Rightarrow>
                               (case constants_map m1 of
                                  None \<Rightarrow> Inl NullDereference
                                | Some cm \<Rightarrow>
                                    Inr (m1\<lparr>constants_map := Some (emplace cm name tensor_handle),
                                            trace := trace m1 @ [CreateTensor args]\<rparr>,
                                         bytes_read')))))"

fun load_loop ::
  "config \<Rightarrow> 'h env \<Rightarrow> size_t list \<Rightarrow> nat list \<Rightarrow> 'h model \<times> size_t \<Rightarrow> error + ('h model \<times> size_t)" where
  "load_loop cfg env offs [] st = Inr st"
| "load_loop cfg env offs (i # is) st =
     bind_err (load_constant cfg env offs i st) (load_loop cfg env offs is)"

text \<open>
  \<open>load_constants\<close>. \<open>constants_map_->reserve\<close> dereferences the map first. The
  device blob is laid out and allocated when the device type is not the CPU's (the
  allocation exists only under \<open>USE_CUDA\<close> or \<open>USE_XPU\<close>, and only \<open>cudaMalloc\<close> is
  checked); without \<open>include_weights\<close> the function returns there.
\<close>

definition load_constants :: "config \<Rightarrow> 'h env \<Rightarrow> 'h model \<Rightarrow> error + 'h model" where
  "load_constants cfg env m =
     (case constants_map m of
        None \<Rightarrow> Inl NullDereference
      | Some _ \<Rightarrow>
          let num_constants = length (constants_info m);
              zero_offsets = replicate num_constants (0 :: size_t)
          in bind_err
               (if device_type m \<noteq> DeviceCPU then
                  (case compute_gpu_constant_blob cfg (constants_info m) (0, zero_offsets) of
                     (blob_size, offs) \<Rightarrow>
                       if build cfg = PureCPU then Inr (m, offs)
                       else if build cfg = UseCUDA \<and> \<not> gpu_malloc_ok env blob_size
                       then Inl DeviceError
                       else Inr (m\<lparr>constant_blob := Some blob_size,
                                   trace := trace m @ [GpuMalloc blob_size]\<rparr>, offs))
                else Inr (m, zero_offsets))
               (\<lambda>(m1, constants_internal_offset).
                  if \<not> include_weights m1 then Inr m1
                  else
                    bind_err
                      (load_loop cfg env constants_internal_offset [0..<num_constants] (m1, 0))
                      (\<lambda>(m2, bytes_read).
                         if constants_map m2 \<noteq> None then update_constants_array_from_map m2
                         else Inr m2)))"

subsection \<open>The execution lifecycle\<close>

text \<open>
  What the device runtime and the generated \<open>run_impl\<close> answer during one call: the
  status codes of the four CUDA event functions, whether \<open>run_impl\<close> throws, whether
  \<open>wait_and_throw\<close> throws, and whether the SYCL event reports \<open>complete\<close>. The two
  answers about completion are those for a marker that is still pending.
\<close>

datatype cuda_status = CudaSuccess | CudaErrorNotReady | CudaErrorOther

record driver =
  cudaEventCreate :: cuda_status
  cudaEventRecord :: cuda_status
  cudaEventQuery :: cuda_status
  cudaEventSynchronize :: cuda_status
  run_impl_throws :: bool
  wait_and_throw_throws :: bool
  xpu_event_complete :: bool








subsection \<open>Auxiliary definitions\<close>

text \<open>The rounding step of the loop of \<open>compute_gpu_constant_blob\<close>, on its own.\<close>

definition align64 :: "size_t \<Rightarrow> size_t" where
  "align64 d = (if d mod 64 \<noteq> 0 then 64 + (d div 64) * 64 else d)"

text \<open>
  What slot \<open>i\<close> of the constants array holds before a rebuild, once the array has been
  created or resized: the old handle, or nothing where there was no array or no such slot.
\<close>

definition kept_slot :: "'h option list option \<Rightarrow> nat \<Rightarrow> 'h option" where
  "kept_slot old i = (case old of None \<Rightarrow> None | Some xs \<Rightarrow> if i < length xs then xs ! i else None)"

text \<open>
  The running total of the loop of \<open>compute_gpu_constant_blob\<close> after \<open>k\<close> constants,
  in \<open>size_t\<close> arithmetic.
\<close>

definition blob_prefix :: "ConstInfo list \<Rightarrow> nat \<Rightarrow> size_t" where
  "blob_prefix infos k = sum_list (map (\<lambda>c. align64 (info_data_size c)) (take k infos))"

text \<open>
  The constants that the loop of \<open>load_constants\<close> passes over with \<open>continue\<close>: the
  folded ones, in the pure CPU build.
\<close>

definition skipped :: "config \<Rightarrow> ConstInfo \<Rightarrow> bool" where
  "skipped cfg c = (build cfg = PureCPU \<and> info_from_folded c)"

text \<open>
  The read cursor in closed form: the sum, in \<open>size_t\<close>, of the data sizes of the first
  \<open>i\<close> constants that are not passed over.
\<close>

definition read_cursor :: "config \<Rightarrow> ConstInfo list \<Rightarrow> nat \<Rightarrow> size_t" where
  "read_cursor cfg infos i =
     sum_list (map info_data_size (filter (\<lambda>c. \<not> skipped cfg c) (take i infos)))"

text \<open>
  The sums of the specification, on natural numbers: the declared data sizes of the first
  \<open>i\<close> constants that are not passed over, and of all the first \<open>i\<close> constants.
\<close>

definition cursor_sum :: "config \<Rightarrow> ConstInfo list \<Rightarrow> nat \<Rightarrow> nat" where
  "cursor_sum cfg infos i =
     sum_list (map (\<lambda>c. unat (info_data_size c)) (filter (\<lambda>c. \<not> skipped cfg c) (take i infos)))"

definition declared_sum :: "ConstInfo list \<Rightarrow> nat \<Rightarrow> nat" where
  "declared_sum infos i = sum_list (map (\<lambda>c. unat (info_data_size c)) (take i infos))"

text \<open>
  What one iteration of the loop hands to the tensor constructor and what it leaves in the
  trace, for a constant with its offset in the blob and the read cursor it starts from.
\<close>

definition data_ptr_for :: "config \<Rightarrow> ConstInfo \<Rightarrow> size_t \<Rightarrow> size_t \<Rightarrow> ptr" where
  "data_ptr_for cfg c blob_offset cursor =
     (if info_data_size c = 0 then Nullptr
      else if build cfg = PureCPU then ConstantsStart cursor
      else BlobPtr blob_offset)"

definition tensor_args_for :: "config \<Rightarrow> device_kind \<Rightarrow> int \<Rightarrow> ConstInfo \<Rightarrow> ptr \<Rightarrow> tensor_args" where
  "tensor_args_for cfg dev idx c p =
     \<lparr>ta_data = p,
      ta_ndim = length (info_shape c),
      ta_sizes = info_shape c,
      ta_strides = info_stride c,
      ta_storage_offset = info_offset c,
      ta_dtype = info_dtype c,
      ta_device_type = dev,
      ta_device_index = idx,
      ta_v2 = (if use_create_tensor_from_blob_v1 cfg then None
               else Some (info_layout c, info_opaque_metadata c,
                          length (info_opaque_metadata c)))\<rparr>"

definition expected_effects ::
  "config \<Rightarrow> device_kind \<Rightarrow> int \<Rightarrow> ConstInfo \<Rightarrow> size_t \<Rightarrow> size_t \<Rightarrow> effect list" where
  "expected_effects cfg dev idx c blob_offset cursor =
     (if skipped cfg c then []
      else
        (if build cfg \<noteq> PureCPU \<and> info_data_size c \<noteq> 0 \<and> \<not> info_from_folded c
         then [Memcpy (BlobPtr blob_offset) (ConstantsStart cursor) (info_data_size c)]
         else [])
        @ [CreateTensor (tensor_args_for cfg dev idx c (data_ptr_for cfg c blob_offset cursor))])"

text \<open>
  All of \<open>load_constants\<close> in closed form. The offsets that the loop is given: the
  layout of \<open>compute_gpu_constant_blob\<close> when the device is not the CPU, and zeros
  otherwise. The allocation of the blob, made before the loop under \<open>USE_CUDA\<close> or
  \<open>USE_XPU\<close> when the device is not the CPU. The arguments of the tensor constructor for
  ordinal \<open>j\<close>. The registry after the first \<open>k\<close> iterations, every constant that is not
  passed over being emplaced under its name in ordinal order. The effects of the iterations
  for a list of ordinals.
\<close>

definition layout_offsets :: "config \<Rightarrow> 'h model \<Rightarrow> size_t list" where
  "layout_offsets cfg m =
     (if device_type m \<noteq> DeviceCPU
      then snd (compute_gpu_constant_blob cfg (constants_info m)
                  (0, replicate (length (constants_info m)) 0))
      else replicate (length (constants_info m)) 0)"

definition alloc_effects :: "config \<Rightarrow> 'h model \<Rightarrow> effect list" where
  "alloc_effects cfg m =
     (if device_type m \<noteq> DeviceCPU \<and> build cfg \<noteq> PureCPU
      then [GpuMalloc (fst (compute_gpu_constant_blob cfg (constants_info m)
                              (0, replicate (length (constants_info m)) 0)))]
      else [])"

definition handle_args ::
  "config \<Rightarrow> device_kind \<Rightarrow> int \<Rightarrow> ConstInfo list \<Rightarrow> size_t list \<Rightarrow> nat \<Rightarrow> tensor_args" where
  "handle_args cfg dev idx infos offs j =
     tensor_args_for cfg dev idx (infos ! j)
       (data_ptr_for cfg (infos ! j) (offs ! j) (read_cursor cfg infos j))"

definition registry_step ::
  "config \<Rightarrow> 'h env \<Rightarrow> device_kind \<Rightarrow> int \<Rightarrow> ConstInfo list \<Rightarrow> size_t list \<Rightarrow>
   (string \<rightharpoonup> 'h) \<Rightarrow> nat \<Rightarrow> (string \<rightharpoonup> 'h)" where
  "registry_step cfg env dev idx infos offs cm j =
     (if skipped cfg (infos ! j) then cm
      else case create_tensor_from_blob env (handle_args cfg dev idx infos offs j) of
             None \<Rightarrow> cm
           | Some h \<Rightarrow> emplace cm (info_name (infos ! j)) h)"

definition registry_after ::
  "config \<Rightarrow> 'h env \<Rightarrow> device_kind \<Rightarrow> int \<Rightarrow> ConstInfo list \<Rightarrow> size_t list \<Rightarrow>
   (string \<rightharpoonup> 'h) \<Rightarrow> nat \<Rightarrow> (string \<rightharpoonup> 'h)" where
  "registry_after cfg env dev idx infos offs cm0 k =
     foldl (registry_step cfg env dev idx infos offs) cm0 [0..<k]"

definition loop_effects ::
  "config \<Rightarrow> device_kind \<Rightarrow> int \<Rightarrow> ConstInfo list \<Rightarrow> size_t list \<Rightarrow> nat list \<Rightarrow> effect list" where
  "loop_effects cfg dev idx infos offs js =
     concat (map (\<lambda>j. expected_effects cfg dev idx (infos ! j) (offs ! j)
                         (read_cursor cfg infos j)) js)"

text \<open>
  The quantities of the self-mapping accessor: \<open>weights_offset = fsize - weights_size\<close>
  in \<open>uint64_t\<close>, the bytes that \<open>mmap\<close> makes visible, and the 64-bit word in their
  last eight bytes.
\<close>

definition weights_offset_of :: "artifact \<Rightarrow> 64 word" where
  "weights_offset_of art = of_nat (length (file_bytes art)) - header_weights_size art"

definition mapped_payload :: "artifact \<Rightarrow> byte list" where
  "mapped_payload art =
     mmap_region (file_bytes art) (unat (weights_offset_of art)) (unat (header_weights_size art))"

definition trailing_magic :: "artifact \<Rightarrow> 64 word" where
  "trailing_magic art =
     read_u64 (drop (unat (header_weights_size art) - 8) (mapped_payload art))"

text \<open>
  A descriptor with a name, a data size and the folding flag, and an instance over given
  descriptors with an empty map installed, no array and nothing run: the inputs of the
  examples below.
\<close>

definition example_const :: "string \<Rightarrow> size_t \<Rightarrow> bool \<Rightarrow> ConstInfo" where
  "example_const nm sz folded =
     \<lparr>info_name = nm, info_shape = [], info_stride = [], info_dtype = 0, info_offset = 0,
      info_data_size = sz, info_layout = 0, info_opaque_metadata = [],
      info_opaque_metadata_size = 0, info_original_fqn = nm, info_from_folded = folded,
      info_type = 0\<rparr>"

definition example_model :: "ConstInfo list \<Rightarrow> device_kind \<Rightarrow> bool \<Rightarrow> tensor_args model" where
  "example_model infos dev weights =
     \<lparr>inputs_info = [], outputs_info = [], constants_info = infos,
      constants_map = Some Map.empty, constants = None, constant_blob = None,
      self_mmap = None, include_weights = weights, run_finished_flag = False,
      run_finished_event = False, completion_reached = False, device_type = dev,
      device_idx = - 1, trace = []\<rparr>"

text \<open>A build without \<open>USE_MMAP_SELF\<close> and with the second tensor constructor.\<close>

definition example_config :: "build \<Rightarrow> config" where
  "example_config b = \<lparr>build = b, use_mmap_self = False, use_create_tensor_from_blob_v1 = False\<rparr>"

text \<open>A handle for the examples: the tensor of no data on the CPU device \<open>n\<close>.\<close>

definition example_handle :: "int \<Rightarrow> tensor_args" where
  "example_handle n =
     tensor_args_for (example_config PureCPU) DeviceCPU n (example_const [] 0 False) Nullptr"

text \<open>
  Collaborators that never fail; the handle of a tensor is the record of the arguments it
  was constructed from.
\<close>

definition example_env :: "tensor_args env" where
  "example_env =
     \<lparr>gpu_malloc_ok = (\<lambda>n. True), memcpy_ok = (\<lambda>dst src n. True),
      create_tensor_from_blob = Some,
      artifact = \<lparr>dladdr_ok = True, open_ok = True, file_bytes = [], mmap_ok = True,
                   header_weights_size = 0, header_magic_number = 0\<rparr>\<rparr>"

text \<open>
  The artifact of the specification's example: a header with size 1024 and magic number
  \<open>0xABCD\<close>, and a file of 16 KiB followed by a payload of 1024 bytes whose last eight
  bytes hold \<open>trailer\<close> (below \<open>2^16\<close>), least significant byte first.
\<close>

definition example_artifact :: "64 word \<Rightarrow> artifact" where
  "example_artifact trailer =
     \<lparr>dladdr_ok = True, open_ok = True,
      file_bytes = replicate 16384 0 @ replicate 1016 0
                   @ [ucast trailer, ucast (drop_bit 8 trailer), 0, 0, 0, 0, 0, 0],
      mmap_ok = True, header_weights_size = 1024, header_magic_number = 0xABCD\<rparr>"

text \<open>
  A device runtime in which every call succeeds and the event query answers \<open>query\<close>.
\<close>

definition example_driver :: "cuda_status \<Rightarrow> driver" where
  "example_driver query =
     \<lparr>cudaEventCreate = CudaSuccess, cudaEventRecord = CudaSuccess, cudaEventQuery = query,
      cudaEventSynchronize = CudaSuccess, run_impl_throws = False,
      wait_and_throw_throws = False, xpu_event_complete = False\<rparr>"

section \<open>The examples\<close>

lemma example_const_sel [simp]:
  "info_name (example_const nm sz folded) = nm"
  "info_data_size (example_const nm sz folded) = sz"
  "info_from_folded (example_const nm sz folded) = folded"
  "info_shape (example_const nm sz folded) = []"
  "info_stride (example_const nm sz folded) = []"
  "info_dtype (example_const nm sz folded) = 0"
  "info_offset (example_const nm sz folded) = 0"
  "info_layout (example_const nm sz folded) = 0"
  "info_opaque_metadata (example_const nm sz folded) = []"
  by (simp_all add: example_const_def)

lemma example_model_sel [simp]:
  "inputs_info (example_model infos dev weights) = []"
  "outputs_info (example_model infos dev weights) = []"
  "constants_info (example_model infos dev weights) = infos"
  "constants_map (example_model infos dev weights) = Some Map.empty"
  "constants (example_model infos dev weights) = None"
  "constant_blob (example_model infos dev weights) = None"
  "self_mmap (example_model infos dev weights) = None"
  "include_weights (example_model infos dev weights) = weights"
  "run_finished_flag (example_model infos dev weights) = False"
  "run_finished_event (example_model infos dev weights) = False"
  "completion_reached (example_model infos dev weights) = False"
  "device_type (example_model infos dev weights) = dev"
  "device_idx (example_model infos dev weights) = - 1"
  "trace (example_model infos dev weights) = []"
  by (simp_all add: example_model_def)

lemma example_config_sel [simp]:
  "build (example_config b) = b"
  "use_mmap_self (example_config b) = False"
  "use_create_tensor_from_blob_v1 (example_config b) = False"
  by (simp_all add: example_config_def)

lemma example_env_sel [simp]:
  "gpu_malloc_ok example_env n = True"
  "memcpy_ok example_env dst src n = True"
  "create_tensor_from_blob example_env a = Some a"
  by (simp_all add: example_env_def)

lemma example_artifact_sel [simp]:
  "dladdr_ok (example_artifact t)" "open_ok (example_artifact t)" "mmap_ok (example_artifact t)"
  "header_weights_size (example_artifact t) = 1024"
  "header_magic_number (example_artifact t) = 0xABCD"
  by (simp_all add: example_artifact_def)

lemma example_driver_sel [simp]:
  "cudaEventCreate (example_driver q) = CudaSuccess"
  "cudaEventRecord (example_driver q) = CudaSuccess"
  "cudaEventQuery (example_driver q) = q"
  "cudaEventSynchronize (example_driver q) = CudaSuccess"
  "run_impl_throws (example_driver q) = False"
  "wait_and_throw_throws (example_driver q) = False"
  "xpu_event_complete (example_driver q) = False"
  by (simp_all add: example_driver_def)

section \<open>Device strings\<close>

lemma match_kind_Some:
  "match_kind s = Some (kind, rest) \<Longrightarrow> kind \<in> {''cpu'', ''cuda'', ''xpu''} \<and> s = kind @ rest"
  unfolding match_kind_def
  by (auto split: if_splits intro: append_take_drop_id [symmetric] simp del: append_take_drop_id)

lemma regex_match_device_form:
  assumes "regex_match_device s = Some r"
  shows "kind_index_form s"
proof -
  from assms obtain kind rest where mk: "match_kind s = Some (kind, rest)"
    unfolding regex_match_device_def by (auto split: option.splits)
  then have k: "kind \<in> {''cpu'', ''cuda'', ''xpu''}" and s: "s = kind @ rest"
    using match_kind_Some by blast+
  show ?thesis
  proof (cases rest)
    case Nil
    with k s show ?thesis unfolding kind_index_form_def by auto
  next
    case (Cons c ds)
    with assms mk have "c = CHR '':'' \<and> ds \<noteq> [] \<and> list_all is_digit ds"
      unfolding regex_match_device_def by (auto split: if_splits)
    with k s Cons show ?thesis unfolding kind_index_form_def by blast
  qed
qed

lemma regex_cpu: "regex_match_device ''cpu'' = Some (''cpu'', None)"
  by (simp add: regex_match_device_def match_kind_def)
lemma regex_xpu: "regex_match_device ''xpu'' = Some (''xpu'', None)"
  by (simp add: regex_match_device_def match_kind_def)
lemma regex_tpu: "regex_match_device ''tpu'' = None"
  by (simp add: regex_match_device_def match_kind_def)
lemma regex_cuda1: "regex_match_device ''cuda:1'' = Some (''cuda'', Some ''1'')"
  by (simp add: regex_match_device_def match_kind_def is_digit_def)
lemma stoi_1: "stoi ''1'' = Inr 1"
  by (simp add: stoi_def decimal_def digit_val_def)

text \<open>
  C4 (amended). \<open>"cpu"\<close> parses to the CPU device with index \<open>-1\<close> (no index) and
  \<open>"cuda:1"\<close> to the CUDA device with index 1 in every build; \<open>"xpu"\<close> parses to the XPU
  device with index \<open>-1\<close> in a build with \<open>USE_XPU\<close> and is an invalid device in the
  other builds; \<open>"tpu"\<close> and every string that is not of the form \<open>kind[:index]\<close> are
  invalid devices.
\<close>

theorem parse_device_str_cases:
  "parse_device_str b ''cpu'' = Inr (DeviceCPU, - 1)
   \<and> parse_device_str b ''cuda:1'' = Inr (DeviceCUDA, 1)
   \<and> parse_device_str UseXPU ''xpu'' = Inr (DeviceXPU, - 1)
   \<and> (b \<noteq> UseXPU \<longrightarrow> parse_device_str b ''xpu'' = Inl (InvalidDevice ''xpu''))
   \<and> parse_device_str b ''tpu'' = Inl (InvalidDevice ''tpu'')
   \<and> (\<not> kind_index_form s \<longrightarrow> parse_device_str b s = Inl (InvalidDevice s))"
proof -
  have "regex_match_device s = None" if "\<not> kind_index_form s"
    using that regex_match_device_form by (cases "regex_match_device s") auto
  then have "\<not> kind_index_form s \<longrightarrow> parse_device_str b s = Inl (InvalidDevice s)"
    by (simp add: parse_device_str_def)
  then show ?thesis
    by (simp add: parse_device_str_def regex_cpu regex_xpu regex_tpu regex_cuda1 stoi_1 bind_err_def)
qed

text \<open>The theorem at the CUDA build and the string \<open>"cuda:"\<close>.\<close>

theorem parse_device_str_cases_witness:
  "UseCUDA \<noteq> UseXPU \<and> parse_device_str UseCUDA ''xpu'' = Inl (InvalidDevice ''xpu'')
   \<and> \<not> kind_index_form ''cuda:'' \<and> parse_device_str UseCUDA ''cuda:'' = Inl (InvalidDevice ''cuda:'')"
proof -
  have nf: "\<not> kind_index_form ''cuda:''"
    by (simp add: kind_index_form_def)
  show ?thesis
    using parse_device_str_cases [of UseCUDA "''cuda:''"] nf by simp
qed

text \<open>
  C4 as stated fails: without \<open>USE_XPU\<close> the string \<open>"xpu"\<close> does not parse.
\<close>

theorem parse_device_str_xpu_counterexample:
  "parse_device_str UseCUDA ''xpu'' = Inl (InvalidDevice ''xpu'')"
  by (simp add: parse_device_str_def regex_xpu bind_err_def)


section \<open>Metadata accessors\<close>

lemma sint_64_cases:
  fixes w :: "64 word"
  shows "sint w = (if uint w < 2 ^ 63 then uint w else uint w - 2 ^ 64)"
proof -
  have u: "uint w < 2 ^ 64" using uint_bounded [of w] by simp
  have z: "0 \<le> uint w" by simp
  have "sint w = (2 ^ 63 + uint w) mod 2 ^ 64 - 2 ^ 63"
    by (simp add: sint_uint signed_take_bit_eq_take_bit_shift take_bit_eq_mod)
      (simp only: add.commute)
  also have "\<dots> = (if uint w < 2 ^ 63 then uint w else uint w - 2 ^ 64)"
  proof (cases "uint w < 2 ^ 63")
    case True
    with z have "(2 ^ 63 + uint w) mod 2 ^ 64 = 2 ^ 63 + uint w"
      by (intro mod_pos_pos_trivial) auto
    with True show ?thesis by simp
  next
    case False
    have "(2 ^ 63 + uint w) mod 2 ^ 64 = (uint w - 2 ^ 63 + 2 ^ 64) mod 2 ^ 64"
      by (simp add: add.commute)
    also have "\<dots> = (uint w - 2 ^ 63) mod 2 ^ 64"
      by (simp only: mod_add_self2)
    also have "\<dots> = uint w - 2 ^ 63"
      using False u by (intro mod_pos_pos_trivial) auto
    finally show ?thesis using False by simp
  qed
  finally show ?thesis .
qed

lemma vector_at_signed:
  fixes idx :: "64 word"
  assumes "length xs < 2 ^ 63"
  shows "vector_at xs idx =
           (if 0 \<le> sint idx \<and> sint idx < int (length xs) then Inr (xs ! nat (sint idx))
            else Inl VectorOutOfRange)"
proof -
  have lt: "unat idx < length xs \<longleftrightarrow> uint idx < int (length xs)"
    by (simp only: uint_nat of_nat_less_iff)
  have u: "uint idx < 2 ^ 64" using uint_bounded [of idx] by simp
  show ?thesis
  proof (cases "uint idx < 2 ^ 63")
    case True
    then have "sint idx = uint idx" by (simp add: sint_64_cases)
    with lt show ?thesis by (simp add: vector_at_def)
  next
    case False
    with u have "sint idx < 0" by (simp add: sint_64_cases)
    moreover from assms False have "\<not> uint idx < int (length xs)" by simp
    ultimately show ?thesis using lt by (simp add: vector_at_def)
  qed
qed

lemma accessor_signed:
  fixes idx :: "64 word"
  assumes "length xs < 2 ^ 63"
  shows "bind_err (vector_at xs idx) (\<lambda>c. Inr (f c)) =
           (if 0 \<le> sint idx \<and> sint idx < int (length xs) then Inr (f (xs ! nat (sint idx)))
            else Inl VectorOutOfRange)"
  by (simp add: vector_at_signed [OF assms] bind_err_def)

text \<open>
  C9. Every per-input, per-output and per-constant accessor goes through
  \<open>std::vector::at\<close>: called with an ordinal in \<open>0..count-1\<close> it returns the field of
  that descriptor, and called with any other \<open>int64_t\<close> (negative ones included) it
  throws \<open>std::out_of_range\<close>. The vectors hold fewer than \<open>2^63\<close> elements, as every
  \<open>std::vector\<close> does. \<open>constant_offset\<close> returns the 64 bits of the \<open>int64_t\<close>
  field as \<open>size_t\<close>.
\<close>

theorem metadata_accessors_range_checked:
  fixes idx :: "64 word"
  assumes "num_inputs m < 2 ^ 63" and "num_outputs m < 2 ^ 63" and "num_constants m < 2 ^ 63"
  shows
    "(0 \<le> sint idx \<and> sint idx < int (num_inputs m) \<longrightarrow>
        input_name m idx = Inr (param_name (inputs_info m ! nat (sint idx))))
     \<and> (\<not> (0 \<le> sint idx \<and> sint idx < int (num_inputs m)) \<longrightarrow>
        input_name m idx = Inl VectorOutOfRange)
     \<and> (0 \<le> sint idx \<and> sint idx < int (num_outputs m) \<longrightarrow>
        output_name m idx = Inr (param_name (outputs_info m ! nat (sint idx))))
     \<and> (\<not> (0 \<le> sint idx \<and> sint idx < int (num_outputs m)) \<longrightarrow>
        output_name m idx = Inl VectorOutOfRange)
     \<and> (0 \<le> sint idx \<and> sint idx < int (num_constants m) \<longrightarrow>
        (let c = constants_info m ! nat (sint idx) in
           constant_name m idx = Inr (info_name c)
           \<and> constant_ndim m idx = Inr (length (info_shape c))
           \<and> constant_shape m idx = Inr (info_shape c)
           \<and> constant_stride m idx = Inr (info_stride c)
           \<and> constant_dtype m idx = Inr (info_dtype c)
           \<and> constant_layout m idx = Inr (info_layout c)
           \<and> constant_offset m idx = Inr (info_offset c)
           \<and> constant_data_size m idx = Inr (info_data_size c)
           \<and> constant_original_fqn m idx = Inr (info_original_fqn c)
           \<and> opaque_metadata m idx = Inr (info_opaque_metadata c)
           \<and> opaque_metadata_size m idx = Inr (length (info_opaque_metadata c))
           \<and> constant_from_folded m idx = Inr (info_from_folded c)
           \<and> constant_type m idx = Inr (info_type c)))
     \<and> (\<not> (0 \<le> sint idx \<and> sint idx < int (num_constants m)) \<longrightarrow>
           constant_name m idx = Inl VectorOutOfRange
           \<and> constant_ndim m idx = Inl VectorOutOfRange
           \<and> constant_shape m idx = Inl VectorOutOfRange
           \<and> constant_stride m idx = Inl VectorOutOfRange
           \<and> constant_dtype m idx = Inl VectorOutOfRange
           \<and> constant_layout m idx = Inl VectorOutOfRange
           \<and> constant_offset m idx = Inl VectorOutOfRange
           \<and> constant_data_size m idx = Inl VectorOutOfRange
           \<and> constant_original_fqn m idx = Inl VectorOutOfRange
           \<and> opaque_metadata m idx = Inl VectorOutOfRange
           \<and> opaque_metadata_size m idx = Inl VectorOutOfRange
           \<and> constant_from_folded m idx = Inl VectorOutOfRange
           \<and> constant_type m idx = Inl VectorOutOfRange)"
proof -
  have i: "length (inputs_info m) < 2 ^ 63" and o: "length (outputs_info m) < 2 ^ 63"
    and c: "length (constants_info m) < 2 ^ 63"
    using assms by (simp_all add: num_inputs_def num_outputs_def num_constants_def)
  show ?thesis
    unfolding input_name_def output_name_def constant_name_def constant_ndim_def
      constant_shape_def constant_stride_def constant_dtype_def constant_layout_def
      constant_offset_def constant_data_size_def constant_original_fqn_def
      opaque_metadata_def opaque_metadata_size_def constant_from_folded_def
      constant_type_def accessor_signed [OF i] accessor_signed [OF o] accessor_signed [OF c]
      num_inputs_def num_outputs_def num_constants_def Let_def
    by simp
qed

text \<open>The theorem on one constant, at the ordinals 0, -1 and 1.\<close>

theorem metadata_accessors_range_checked_witness:
  "num_inputs (example_model [example_const ''w'' 4 False] DeviceCPU True) < 2 ^ 63
   \<and> num_outputs (example_model [example_const ''w'' 4 False] DeviceCPU True) < 2 ^ 63
   \<and> num_constants (example_model [example_const ''w'' 4 False] DeviceCPU True) < 2 ^ 63
   \<and> 0 \<le> sint (0 :: 64 word)
   \<and> sint (0 :: 64 word) < int (num_constants (example_model [example_const ''w'' 4 False] DeviceCPU True))
   \<and> constant_name (example_model [example_const ''w'' 4 False] DeviceCPU True) 0 = Inr ''w''
   \<and> constant_data_size (example_model [example_const ''w'' 4 False] DeviceCPU True) 0 = Inr 4
   \<and> \<not> (0 \<le> sint (- 1 :: 64 word))
   \<and> constant_name (example_model [example_const ''w'' 4 False] DeviceCPU True) (- 1) = Inl VectorOutOfRange
   \<and> \<not> (sint (1 :: 64 word) < int (num_constants (example_model [example_const ''w'' 4 False] DeviceCPU True)))
   \<and> constant_name (example_model [example_const ''w'' 4 False] DeviceCPU True) 1 = Inl VectorOutOfRange
   \<and> input_name (example_model [example_const ''w'' 4 False] DeviceCPU True) 0 = Inl VectorOutOfRange"
proof -
  let ?m = "example_model [example_const ''w'' 4 False] DeviceCPU True"
  have b: "num_inputs ?m < 2 ^ 63" "num_outputs ?m < 2 ^ 63" "num_constants ?m < 2 ^ 63"
    by (simp_all add: num_inputs_def num_outputs_def num_constants_def)
  have n: "num_constants ?m = 1" "num_inputs ?m = 0"
    by (simp_all add: num_constants_def num_inputs_def)
  show ?thesis
    using metadata_accessors_range_checked [OF b, of 0]
      metadata_accessors_range_checked [OF b, of "- 1"]
      metadata_accessors_range_checked [OF b, of 1] b
    by (simp add: n Let_def)
qed


text \<open>
  \<open>constant_offset\<close> returns the \<open>int64_t\<close> field as \<open>size_t\<close>: a field of -1 comes
  back as \<open>2^64 - 1\<close>.
\<close>

lemma constant_offset_as_size_t:
  "constant_offset
     (example_model [(example_const ''w'' 4 False)\<lparr>info_offset := - 1\<rparr>] DeviceCPU True) 0
   = Inr (- 1)
   \<and> unat (- 1 :: size_t) = 18446744073709551615"
  by (simp add: constant_offset_def vector_at_def bind_err_def unsigned_minus_1_eq_mask
      mask_eq_exp_minus_1)

section \<open>The layout of the device blob\<close>

lemma round_up_64_exact: "n mod 64 = 0 \<Longrightarrow> round_up_64 n = n"
proof -
  assume "n mod 64 = 0"
  then obtain q where n: "n = 64 * q" by (auto simp: mod_eq_0_iff_dvd)
  have "(63 + 64 * q) div 64 = q" by simp
  then show ?thesis unfolding round_up_64_def n by (simp add: add.commute)
qed

lemma round_up_64_inexact: "n mod 64 \<noteq> 0 \<Longrightarrow> round_up_64 n = 64 + (n div 64) * 64"
proof -
  assume nz: "n mod 64 \<noteq> 0"
  define q where "q = n div 64"
  define r where "r = n mod 64"
  have n: "n = r + 64 * q" unfolding q_def r_def by simp
  have r: "0 < r" "r < 64" using nz by (simp_all add: r_def)
  have "(r + 63) div 64 = 1"
    using r by (intro div_nat_eqI) simp_all
  then have "(r + 63 + 64 * q) div 64 = 1 + q" by simp
  moreover have "n + 63 = r + 63 + 64 * q" using n by simp
  ultimately have "(n + 63) div 64 = 1 + q" by simp
  then show ?thesis unfolding round_up_64_def q_def by simp
qed

lemma round_up_64_pos: "0 < n \<Longrightarrow> 0 < round_up_64 n"
  by (simp add: round_up_64_def div_greater_zero_iff)

lemma unat_mod_64: "unat (d mod 64 :: 64 word) = unat d mod 64"
  by (simp add: unat_mod_distrib)

lemma align64_dvd: "64 dvd unat (align64 d)"
proof (cases "d mod 64 = 0")
  case True
  then have "unat d mod 64 = 0" using unat_mod_64 [of d] by simp
  with True show ?thesis by (simp add: align64_def dvd_eq_mod_eq_0)
next
  case False
  have "unat (64 + (d div 64) * 64) = (64 + (unat d div 64) * 64) mod 2 ^ 64"
    by (simp add: unat_word_ariths unat_div_distrib mod_simps)
  moreover have "(64::nat) dvd 2 ^ 64"
    by (simp add: dvd_def)
  ultimately have "64 dvd unat (64 + (d div 64) * 64)"
    by (simp add: dvd_mod_iff)
  with False show ?thesis by (simp add: align64_def)
qed

lemma align64_round_up:
  assumes "round_up_64 (unat d) < 2 ^ 64"
  shows "unat (align64 d) = round_up_64 (unat d)"
proof (cases "d mod 64 = 0")
  case True
  then have "unat d mod 64 = 0" using unat_mod_64 [of d] by simp
  then have "round_up_64 (unat d) = unat d" by (rule round_up_64_exact)
  with True show ?thesis by (simp add: align64_def)
next
  case False
  have nz: "unat d mod 64 \<noteq> 0"
  proof
    assume "unat d mod 64 = 0"
    then have "unat (d mod 64) = 0" by (simp only: unat_mod_64)
    then have "d mod 64 = 0" by (simp only: unat_eq_0)
    with False show False ..
  qed
  then have r: "round_up_64 (unat d) = 64 + (unat d div 64) * 64"
    by (rule round_up_64_inexact)
  have "unat (64 + (d div 64) * 64) = (64 + (unat d div 64) * 64) mod 2 ^ 64"
    by (simp add: unat_word_ariths unat_div_distrib mod_simps)
  also have "\<dots> = 64 + (unat d div 64) * 64"
    using assms r by simp
  finally show ?thesis using False r by (simp add: align64_def)
qed


lemma blob_loop_append:
  "blob_loop infos (xs @ ys) acc = blob_loop infos ys (blob_loop infos xs acc)"
proof (induction xs arbitrary: acc)
  case Nil
  show ?case by simp
next
  case (Cons i xs)
  obtain b offs where acc: "acc = (b, offs)" by (cases acc)
  show ?case unfolding acc by (simp add: Let_def Cons.IH)
qed

lemma blob_loop_step:
  "blob_loop infos [i] (b, offs) = (b + align64 (info_data_size (infos ! i)), offs[i := b])"
  by (simp add: Let_def align64_def)

lemma blob_prefix_Suc:
  "k < length infos \<Longrightarrow>
   blob_prefix infos (Suc k) = blob_prefix infos k + align64 (info_data_size (infos ! k))"
  by (simp add: blob_prefix_def take_Suc_conv_app_nth)

lemma blob_loop_upt:
  assumes "length offs = length infos"
  shows "k \<le> length infos \<Longrightarrow>
         blob_loop infos [0..<k] (0, offs) =
           (blob_prefix infos k, map (blob_prefix infos) [0..<k] @ drop k offs)"
proof (induction k)
  case 0
  show ?case by (simp add: blob_prefix_def)
next
  case (Suc k)
  then have k: "k < length infos" by simp
  have "blob_loop infos [0..<Suc k] (0, offs) =
          blob_loop infos [k] (blob_loop infos [0..<k] (0, offs))"
    by (simp add: blob_loop_append)
  also have "\<dots> = blob_loop infos [k]
                     (blob_prefix infos k, map (blob_prefix infos) [0..<k] @ drop k offs)"
    using Suc by simp
  also have "\<dots> = (blob_prefix infos (Suc k),
                    (map (blob_prefix infos) [0..<k] @ drop k offs)[k := blob_prefix infos k])"
    using k by (simp only: blob_loop_step blob_prefix_Suc)
  also have "(map (blob_prefix infos) [0..<k] @ drop k offs)[k := blob_prefix infos k] =
               map (blob_prefix infos) [0..<Suc k] @ drop (Suc k) offs"
  proof -
    from k assms have "drop k offs = offs ! k # drop (Suc k) offs"
      by (simp add: Cons_nth_drop_Suc)
    then show ?thesis by (simp add: list_update_append)
  qed
  finally show ?case .
qed

lemma compute_gpu_constant_blob_eq:
  assumes "build cfg \<noteq> PureCPU" and "length offs = length infos"
  shows "compute_gpu_constant_blob cfg infos (b, offs) =
           (blob_prefix infos (length infos), map (blob_prefix infos) [0..<length infos])"
  using assms blob_loop_upt [OF assms(2), of "length infos"]
  by (simp add: compute_gpu_constant_blob_def)

lemma sum_list_take_le:
  fixes xs :: "nat list"
  shows "i \<le> j \<Longrightarrow> sum_list (take i xs) \<le> sum_list (take j xs)"
proof -
  assume "i \<le> j"
  then have "take j xs = take i xs @ take (j - i) (drop i xs)"
    by (metis le_add_diff_inverse take_add)
  then show ?thesis by simp
qed

lemma sum_list_take_total:
  fixes xs :: "nat list"
  shows "sum_list (take i xs) \<le> sum_list xs"
  using sum_list_take_le [of i "length xs" xs] by (cases "i \<le> length xs") simp_all

lemma blob_prefix_unat:
  assumes "sum_list (aligned_sizes infos) < 2 ^ 64"
  shows "k \<le> length infos \<Longrightarrow> unat (blob_prefix infos k) = sum_list (take k (aligned_sizes infos))"
proof (induction k)
  case 0
  show ?case by (simp add: blob_prefix_def)
next
  case (Suc k)
  then have k: "k < length infos" and IH: "unat (blob_prefix infos k) = sum_list (take k (aligned_sizes infos))"
    by simp_all
  have tk: "take (Suc k) (aligned_sizes infos) =
              take k (aligned_sizes infos) @ [round_up_64 (unat (info_data_size (infos ! k)))]"
    using k by (simp add: take_Suc_conv_app_nth aligned_sizes_def)
  have bound: "sum_list (take (Suc k) (aligned_sizes infos)) < 2 ^ 64"
    using sum_list_take_total [of "Suc k" "aligned_sizes infos"] assms by simp
  then have r: "round_up_64 (unat (info_data_size (infos ! k))) < 2 ^ 64"
    unfolding tk by simp
  have a: "unat (align64 (info_data_size (infos ! k))) = round_up_64 (unat (info_data_size (infos ! k)))"
    using r by (rule align64_round_up)
  have "unat (blob_prefix infos k) + unat (align64 (info_data_size (infos ! k))) < 2 ^ 64"
    using bound unfolding tk IH a by simp
  then have "unat (blob_prefix infos k + align64 (info_data_size (infos ! k))) =
               unat (blob_prefix infos k) + unat (align64 (info_data_size (infos ! k)))"
    by (intro unat_add_lem [THEN iffD1]) simp
  then show ?case
    unfolding blob_prefix_Suc [OF k] tk IH a by simp
qed

lemma blob_prefix_dvd: "64 dvd unat (blob_prefix infos k)"
proof -
  have "64 dvd unat (sum_list (map (\<lambda>c. align64 (info_data_size c)) cs))"
    for cs :: "ConstInfo list"
  proof (induction cs)
    case Nil
    show ?case by simp
  next
    case (Cons c cs)
    have d: "(64::nat) dvd 2 ^ 64" by (simp add: dvd_def)
    have "unat (align64 (info_data_size c) + sum_list (map (\<lambda>c. align64 (info_data_size c)) cs)) =
            (unat (align64 (info_data_size c)) + unat (sum_list (map (\<lambda>c. align64 (info_data_size c)) cs))) mod 2 ^ 64"
      by (simp add: unat_word_ariths)
    moreover have "64 dvd unat (align64 (info_data_size c)) + unat (sum_list (map (\<lambda>c. align64 (info_data_size c)) cs))"
      using align64_dvd Cons.IH by (rule dvd_add)
    ultimately show ?case using d by (simp add: dvd_mod_iff)
  qed
  then show ?thesis by (simp add: blob_prefix_def)
qed


text \<open>
  C3 (amended). In a build with \<open>USE_CUDA\<close> or \<open>USE_XPU\<close>, for descriptors whose rounded
  sizes sum to less than \<open>2^64\<close>: the offset of each constant is the sum of the rounded
  data sizes of the constants before it and a multiple of 64; the offsets are
  non-decreasing in ordinal order, and strictly increasing from every constant of
  non-zero data size to the later ones; the total is the sum of every data size rounded up
  to a multiple of 64; and the result depends on the descriptors only, not on what the two
  reference arguments held before.
\<close>

theorem compute_gpu_constant_blob_layout:
  assumes "build cfg \<noteq> PureCPU" and "length offs = length infos"
    and "sum_list (aligned_sizes infos) < 2 ^ 64"
  shows
    "(let (blob_size, offsets) = compute_gpu_constant_blob cfg infos (b, offs) in
        length offsets = length infos
        \<and> unat blob_size = sum_list (aligned_sizes infos)
        \<and> (\<forall>i < length infos.
              unat (offsets ! i) = sum_list (take i (aligned_sizes infos))
              \<and> 64 dvd unat (offsets ! i))
        \<and> (\<forall>i j. i < j \<and> j < length infos \<longrightarrow> unat (offsets ! i) \<le> unat (offsets ! j))
        \<and> (\<forall>i j. i < j \<and> j < length infos \<and> info_data_size (infos ! i) \<noteq> 0 \<longrightarrow>
              unat (offsets ! i) < unat (offsets ! j))
        \<and> (\<forall>b' offs'. length offs' = length infos \<longrightarrow>
              compute_gpu_constant_blob cfg infos (b', offs') = (blob_size, offsets)))"
proof -
  let ?n = "length infos"
  let ?offsets = "map (blob_prefix infos) [0..<?n]"
  let ?sizes = "aligned_sizes infos"
  have eq: "compute_gpu_constant_blob cfg infos (b', offs') = (blob_prefix infos ?n, ?offsets)"
    if "length offs' = length infos" for b' offs'
    using assms(1) that by (rule compute_gpu_constant_blob_eq)
  have len: "length ?sizes = ?n" by (simp add: aligned_sizes_def)
  have total: "unat (blob_prefix infos ?n) = sum_list ?sizes"
    using blob_prefix_unat [OF assms(3), of ?n] len by simp
  have off: "unat (?offsets ! i) = sum_list (take i ?sizes)" if "i < ?n" for i
    using blob_prefix_unat [OF assms(3), of i] that by simp
  have dvd: "64 dvd unat (?offsets ! i)" if "i < ?n" for i
    using that by (simp add: blob_prefix_dvd)
  have mono: "unat (?offsets ! i) \<le> unat (?offsets ! j)" if "i < j" "j < ?n" for i j
    using that off [of i] off [of j] sum_list_take_le [of i j ?sizes] by simp
  have strict: "unat (?offsets ! i) < unat (?offsets ! j)"
    if "i < j" "j < ?n" "info_data_size (infos ! i) \<noteq> 0" for i j
  proof -
    from that have i: "i < ?n" by simp
    have "unat (info_data_size (infos ! i)) \<noteq> 0"
      using that(3) by (simp add: unat_eq_0)
    then have pos: "0 < round_up_64 (unat (info_data_size (infos ! i)))"
      by (intro round_up_64_pos) simp
    have "take (Suc i) ?sizes = take i ?sizes @ [round_up_64 (unat (info_data_size (infos ! i)))]"
      using i by (simp add: take_Suc_conv_app_nth aligned_sizes_def)
    then have "sum_list (take i ?sizes) < sum_list (take (Suc i) ?sizes)"
      using pos by simp
    also have "\<dots> \<le> sum_list (take j ?sizes)"
      using that(1) by (intro sum_list_take_le) simp
    finally show ?thesis using off [OF i] off [OF that(2)] by simp
  qed
  show ?thesis
    unfolding eq [OF assms(2)] Let_def prod.case
    using total off dvd mono strict eq by (simp del: upt_Suc nth_map)
qed

text \<open>The theorem on two constants of 100 and 64 bytes.\<close>

theorem compute_gpu_constant_blob_layout_witness:
  "build (example_config UseCUDA) \<noteq> PureCPU
   \<and> length [7, 7 :: size_t] = length [example_const ''a'' 100 False, example_const ''b'' 64 False]
   \<and> sum_list (aligned_sizes [example_const ''a'' 100 False, example_const ''b'' 64 False]) < 2 ^ 64
   \<and> compute_gpu_constant_blob (example_config UseCUDA)
        [example_const ''a'' 100 False, example_const ''b'' 64 False] (5, [7, 7]) = (192, [0, 128])
   \<and> (0 :: nat) < 1 \<and> 1 < length [example_const ''a'' 100 False, example_const ''b'' 64 False]
   \<and> info_data_size ([example_const ''a'' 100 False, example_const ''b'' 64 False] ! 0) \<noteq> 0
   \<and> unat ([0, 128 :: size_t] ! 0) < unat ([0, 128 :: size_t] ! 1)"
proof -
  let ?infos = "[example_const ''a'' 100 False, example_const ''b'' 64 False]"
  have h1: "build (example_config UseCUDA) \<noteq> PureCPU" by simp
  have h2: "length [7, 7 :: size_t] = length ?infos" by simp
  have h3: "sum_list (aligned_sizes ?infos) < 2 ^ 64"
    by (simp add: aligned_sizes_def round_up_64_def)
  have v: "compute_gpu_constant_blob (example_config UseCUDA) ?infos (5, [7, 7]) = (192, [0, 128])"
    by (simp add: compute_gpu_constant_blob_def upt_rec Let_def)
  show ?thesis
    using compute_gpu_constant_blob_layout [OF h1 h2 h3, of 5] h1 h3 v
    by simp
qed

text \<open>
  C3 as stated fails: a constant of data size 0 shares its offset with the next one, so
  the offsets are not strictly increasing.
\<close>

theorem compute_gpu_constant_blob_counterexample:
  "snd (compute_gpu_constant_blob (example_config UseCUDA)
          [example_const ''a'' 0 False, example_const ''b'' 4 False] (0, [0, 0])) = [0, 0]"
  by (simp add: compute_gpu_constant_blob_def upt_rec Let_def)


section \<open>The constant registry\<close>

lemma remap_loop_result:
  "idx + length infos \<le> length arr \<Longrightarrow>
   \<exists>arr'. remap_loop cm infos idx arr = Inr arr' \<and> length arr' = length arr
     \<and> (\<forall>j < length arr.
           arr' ! j =
             (if idx \<le> j \<and> j < idx + length infos
              then (case cm (info_name (infos ! (j - idx))) of Some h \<Rightarrow> Some h | None \<Rightarrow> arr ! j)
              else arr ! j))"
proof (induction infos arbitrary: idx arr)
  case Nil
  then show ?case by auto
next
  case (Cons info infos)
  then have idx: "idx < length arr" by simp
  show ?case
  proof (cases "cm (info_name info)")
    case None
    from Cons.prems have "Suc idx + length infos \<le> length arr" by simp
    from Cons.IH [OF this] obtain arr' where
      r: "remap_loop cm infos (Suc idx) arr = Inr arr'" and l: "length arr' = length arr"
      and s: "\<forall>j < length arr. arr' ! j =
             (if Suc idx \<le> j \<and> j < Suc idx + length infos
              then (case cm (info_name (infos ! (j - Suc idx))) of Some h \<Rightarrow> Some h | None \<Rightarrow> arr ! j)
              else arr ! j)"
      by blast
    have "arr' ! j =
             (if idx \<le> j \<and> j < idx + length (info # infos)
              then (case cm (info_name ((info # infos) ! (j - idx))) of Some h \<Rightarrow> Some h | None \<Rightarrow> arr ! j)
              else arr ! j)" if "j < length arr" for j
    proof (cases "j = idx")
      case True
      with s that None show ?thesis by simp
    next
      case False
      then have "idx \<le> j \<longleftrightarrow> Suc idx \<le> j" by auto
      moreover have "Suc idx \<le> j \<Longrightarrow> (info # infos) ! (j - idx) = infos ! (j - Suc idx)"
        by (simp add: Suc_diff_le)
      ultimately show ?thesis using s that by auto
    qed
    with r l None show ?thesis by simp
  next
    case (Some h)
    let ?arr = "arr[idx := Some h]"
    from Cons.prems have "Suc idx + length infos \<le> length ?arr" by simp
    from Cons.IH [OF this] obtain arr' where
      r: "remap_loop cm infos (Suc idx) ?arr = Inr arr'" and l: "length arr' = length arr"
      and s: "\<forall>j < length arr. arr' ! j =
             (if Suc idx \<le> j \<and> j < Suc idx + length infos
              then (case cm (info_name (infos ! (j - Suc idx))) of Some h \<Rightarrow> Some h | None \<Rightarrow> ?arr ! j)
              else ?arr ! j)"
      by auto
    have "arr' ! j =
             (if idx \<le> j \<and> j < idx + length (info # infos)
              then (case cm (info_name ((info # infos) ! (j - idx))) of Some h \<Rightarrow> Some h | None \<Rightarrow> arr ! j)
              else arr ! j)" if "j < length arr" for j
    proof (cases "j = idx")
      case True
      with s that Some idx show ?thesis by simp
    next
      case False
      then have "idx \<le> j \<longleftrightarrow> Suc idx \<le> j" by auto
      moreover have "Suc idx \<le> j \<Longrightarrow> (info # infos) ! (j - idx) = infos ! (j - Suc idx)"
        by (simp add: Suc_diff_le)
      ultimately show ?thesis using s that False by (auto split: option.splits)
    qed
    with r l Some idx show ?thesis by simp
  qed
qed

lemma resize_length: "length (resize n xs) = n"
  by (simp add: resize_def)

lemma resize_nth: "i < n \<Longrightarrow> resize n xs ! i = (if i < length xs then xs ! i else None)"
  by (simp add: resize_def nth_append)

lemma update_constants_array_from_map_result:
  assumes "constants_map m = Some cm"
  shows "\<exists>arr. update_constants_array_from_map m = Inr (m\<lparr>constants := Some arr\<rparr>)
           \<and> length arr = length (constants_info m)
           \<and> (\<forall>i < length (constants_info m).
                 arr ! i = (case cm (info_name (constants_info m ! i)) of
                              Some h \<Rightarrow> Some h
                            | None \<Rightarrow> kept_slot (constants m) i))"
proof -
  let ?n = "length (constants_info m)"
  let ?arr = "case constants m of None \<Rightarrow> replicate ?n None | Some old \<Rightarrow> resize ?n old"
  have len: "length ?arr = ?n" by (simp add: resize_length split: option.splits)
  have nth: "?arr ! i = kept_slot (constants m) i" if "i < ?n" for i
    using that by (simp add: kept_slot_def resize_nth split: option.splits)
  from len have "0 + length (constants_info m) \<le> length ?arr" by simp
  from remap_loop_result [OF this, of cm] obtain arr' where
    r: "remap_loop cm (constants_info m) 0 ?arr = Inr arr'" and l: "length arr' = ?n"
    and s: "\<forall>j < ?n. arr' ! j =
             (if 0 \<le> j \<and> j < 0 + ?n
              then (case cm (info_name (constants_info m ! (j - 0))) of Some h \<Rightarrow> Some h | None \<Rightarrow> ?arr ! j)
              else ?arr ! j)"
    using len by auto
  have "update_constants_array_from_map m = Inr (m\<lparr>constants := Some arr'\<rparr>)"
    using assms r by (simp add: update_constants_array_from_map_def Let_def bind_err_def)
  moreover have "arr' ! i = (case cm (info_name (constants_info m ! i)) of
                              Some h \<Rightarrow> Some h | None \<Rightarrow> kept_slot (constants m) i)"
    if "i < ?n" for i
    using s that nth [OF that] by (simp split: option.splits)
  ultimately show ?thesis using l by blast
qed


lemma update_constants_map_result:
  "\<exists>arr. update_constants_map m (Some cm) True =
            Inr (m\<lparr>constants_map := Some cm, constants := Some arr\<rparr>)
         \<and> length arr = length (constants_info m)
         \<and> (\<forall>i < length (constants_info m).
               arr ! i = (case cm (info_name (constants_info m ! i)) of
                            Some h \<Rightarrow> Some h
                          | None \<Rightarrow> kept_slot (constants m) i))"
  using update_constants_array_from_map_result [of "m\<lparr>constants_map := Some cm\<rparr>" cm]
  by (simp add: update_constants_map_def cong: option.case_cong)

lemma count_unset_fresh:
  assumes "length arr = length infos"
    and "\<forall>i < length infos. arr ! i = cm (info_name (infos ! i))"
  shows "length (filter (\<lambda>s. s = None) arr) =
         length (filter (\<lambda>c. cm (info_name c) = None) infos)"
proof -
  have "arr = map (\<lambda>c. cm (info_name c)) infos"
    using assms by (intro nth_equalityI) simp_all
  then show ?thesis by (simp add: filter_map comp_def)
qed

text \<open>
  C1 (amended). After \<open>update_constants_map\<close> with a map and the rebuild of the array,
  the array has one slot per constant; for every constant whose name is in the map, the
  slot at its ordinal holds exactly the handle stored under that name; for every constant
  whose name is not in the map, the slot is not written and keeps what it held before
  (the old handle of a previous array, nothing in a new array or a new slot). Where there
  was no array before, the unset slots are exactly those of the constants whose names are
  missing from the map.
\<close>

theorem update_constants_map_rebuilds_array:
  "(case update_constants_map m (Some cm) True of
      Inl e \<Rightarrow> False
    | Inr m' \<Rightarrow>
        constants_map m' = Some cm
        \<and> (case constants m' of
              None \<Rightarrow> False
            | Some arr \<Rightarrow>
                length arr = num_constants m
                \<and> (\<forall>i < num_constants m.
                      case cm (info_name (constants_info m ! i)) of
                        Some h \<Rightarrow> arr ! i = Some h
                      | None \<Rightarrow> arr ! i = kept_slot (constants m) i)
                \<and> (constants m = None \<longrightarrow>
                      unset_slots m' =
                        length (filter (\<lambda>c. cm (info_name c) = None) (constants_info m)))))"
proof -
  from update_constants_map_result [of m cm] obtain arr where
    r: "update_constants_map m (Some cm) True =
          Inr (m\<lparr>constants_map := Some cm, constants := Some arr\<rparr>)"
    and l: "length arr = length (constants_info m)"
    and s: "\<forall>i < length (constants_info m).
               arr ! i = (case cm (info_name (constants_info m ! i)) of
                            Some h \<Rightarrow> Some h
                          | None \<Rightarrow> kept_slot (constants m) i)"
    by blast
  have slots: "\<forall>i < num_constants m.
                 case cm (info_name (constants_info m ! i)) of
                   Some h \<Rightarrow> arr ! i = Some h
                 | None \<Rightarrow> arr ! i = kept_slot (constants m) i"
    using s by (simp add: num_constants_def split: option.splits)
  have fresh: "length (filter (\<lambda>s. s = None) arr) =
                 length (filter (\<lambda>c. cm (info_name c) = None) (constants_info m))"
    if "constants m = None"
  proof (rule count_unset_fresh [OF l])
    show "\<forall>i < length (constants_info m). arr ! i = cm (info_name (constants_info m ! i))"
      using s that by (simp add: kept_slot_def split: option.splits)
  qed
  show ?thesis
    unfolding r using l slots fresh by (simp add: num_constants_def unset_slots_def)
qed

text \<open>
  The theorem on two constants, no array, and a map that lacks \<open>"b"\<close>: one unset slot.
\<close>

theorem update_constants_map_rebuilds_array_witness:
  "update_constants_map
     (example_model [example_const ''a'' 4 False, example_const ''b'' 4 False] DeviceCPU True)
     (Some [''a'' \<mapsto> example_handle 7]) True
   = Inr ((example_model [example_const ''a'' 4 False, example_const ''b'' 4 False] DeviceCPU True)
            \<lparr>constants_map := Some [''a'' \<mapsto> example_handle 7], constants := Some [Some (example_handle 7), None]\<rparr>)
   \<and> (0 :: nat) < num_constants
         (example_model [example_const ''a'' 4 False, example_const ''b'' 4 False] DeviceCPU True)
   \<and> constants (example_model [example_const ''a'' 4 False, example_const ''b'' 4 False]
                   DeviceCPU True) = None
   \<and> unset_slots
        ((example_model [example_const ''a'' 4 False, example_const ''b'' 4 False] DeviceCPU True)
            \<lparr>constants_map := Some [''a'' \<mapsto> example_handle 7], constants := Some [Some (example_handle 7), None]\<rparr>) = 1"
proof -
  let ?m = "example_model [example_const ''a'' 4 False, example_const ''b'' 4 False] DeviceCPU True"
  have v: "update_constants_map ?m (Some [''a'' \<mapsto> example_handle 7]) True
             = Inr (?m\<lparr>constants_map := Some [''a'' \<mapsto> example_handle 7], constants := Some [Some (example_handle 7), None]\<rparr>)"
    by (simp add: update_constants_map_def update_constants_array_from_map_def Let_def
        bind_err_def numeral_2_eq_2)
  show ?thesis
    using update_constants_map_rebuilds_array [where m = ?m and cm = "[''a'' \<mapsto> example_handle 7]"]
    unfolding v by (simp add: num_constants_def unset_slots_def)
qed

text \<open>
  C1 as stated fails: with an array already populated, a map that lacks \<open>"b"\<close> leaves the
  old handle in the slot of \<open>"b"\<close>, and no slot is unset.
\<close>

theorem update_constants_map_stale_slot_counterexample:
  "update_constants_map
     ((example_model [example_const ''a'' 4 False, example_const ''b'' 4 False] DeviceCPU True)
        \<lparr>constants := Some [Some (example_handle 1), Some (example_handle 2)]\<rparr>)
     (Some [''a'' \<mapsto> example_handle 7]) True
   = Inr ((example_model [example_const ''a'' 4 False, example_const ''b'' 4 False] DeviceCPU True)
            \<lparr>constants_map := Some [''a'' \<mapsto> example_handle 7], constants := Some [Some (example_handle 7), Some (example_handle 2)]\<rparr>)
   \<and> unset_slots
        ((example_model [example_const ''a'' 4 False, example_const ''b'' 4 False] DeviceCPU True)
            \<lparr>constants_map := Some [''a'' \<mapsto> example_handle 7], constants := Some [Some (example_handle 7), Some (example_handle 2)]\<rparr>) = 0"
  by (simp add: update_constants_map_def update_constants_array_from_map_def Let_def
      bind_err_def resize_def unset_slots_def)


section \<open>The constant loader\<close>

lemma self_mmap_same: "\<exists>mm. m = m\<lparr>self_mmap := mm\<rparr>"
  by (rule exI [of _ "self_mmap m"]) simp

lemma get_constants_start_fst:
  "fst (get_constants_start cfg art m) = m
   \<or> fst (get_constants_start cfg art m) =
       m\<lparr>self_mmap := Some (mmap_region (file_bytes art)
                              (unat (of_nat (length (file_bytes art)) - header_weights_size art))
                              (unat (header_weights_size art)))\<rparr>"
  by (simp add: get_constants_start_def Let_def)

lemma get_constants_start_state:
  "\<exists>mm. fst (get_constants_start cfg art m) = m\<lparr>self_mmap := mm\<rparr>"
  using get_constants_start_fst [of cfg art m] self_mmap_same [of m] by auto

lemma get_constants_start_ptr:
  "snd (get_constants_start cfg art m) = Inr p \<Longrightarrow> p = ConstantsStart 0"
  unfolding get_constants_start_def Let_def by (auto split: if_splits)

lemma constant_ptr_Inr:
  assumes "constant_ptr cfg env m off br sz skip = Inr (m', p)"
  shows "\<exists>mm. m' = m\<lparr>self_mmap := mm,
                      trace := trace m @ (if build cfg \<noteq> PureCPU \<and> \<not> skip
                                          then [Memcpy (BlobPtr off) (ConstantsStart br) sz]
                                          else [])\<rparr>
              \<and> p = (if build cfg = PureCPU then ConstantsStart br else BlobPtr off)"
proof -
  obtain m1 r where g: "get_constants_start cfg (artifact env) m = (m1, r)"
    by (cases "get_constants_start cfg (artifact env) m")
  from get_constants_start_state [of cfg "artifact env" m] g
  obtain mm where m1: "m1 = m\<lparr>self_mmap := mm\<rparr>" by auto
  have r: "r = Inr q \<Longrightarrow> q = ConstantsStart 0" for q
    using get_constants_start_ptr [of cfg "artifact env" m q] g by simp
  have same: "m = m\<lparr>self_mmap := self_mmap m, trace := trace m @ []\<rparr>" by simp
  show ?thesis
  proof (cases "build cfg = PureCPU")
    case True
    with assms have nskip: "\<not> skip"
      by (auto simp: constant_ptr_def split: if_splits)
    have e: "constant_ptr cfg env m off br sz skip =
               bind_err r (\<lambda>start. Inr (m1, ptr_add start br))"
      using True nskip g by (simp add: constant_ptr_def)
    show ?thesis
    proof (cases r)
      case (Inl err)
      with e assms show ?thesis by (simp add: bind_err_def)
    next
      case (Inr q)
      with r have q: "q = ConstantsStart 0" by simp
      from e assms Inr q have "m' = m1" and "p = ConstantsStart br"
        by (simp_all add: bind_err_def)
      with m1 True show ?thesis by (intro exI [of _ mm]) simp
    qed
  next
    case False
    show ?thesis
    proof (cases skip)
      case True
      with assms False have "m' = m" "p = BlobPtr off"
        by (auto simp: constant_ptr_def Let_def)
      with False True show ?thesis by (intro exI [of _ "self_mmap m"]) simp
    next
      case nskip: False
      have e: "constant_ptr cfg env m off br sz skip =
                 bind_err r (\<lambda>start.
                   if build cfg = UseCUDA \<and> \<not> memcpy_ok env (BlobPtr off) (ptr_add start br) sz
                   then Inl DeviceError
                   else Inr (m1\<lparr>trace := trace m1 @ [Memcpy (BlobPtr off) (ptr_add start br) sz]\<rparr>,
                             BlobPtr off))"
        using False nskip g by (simp add: constant_ptr_def Let_def)
      show ?thesis
      proof (cases r)
        case (Inl err)
        with e assms show ?thesis by (simp add: bind_err_def)
      next
        case (Inr q)
        with r have q: "q = ConstantsStart 0" by simp
        from e assms Inr q
        have "m' = m1\<lparr>trace := trace m1 @ [Memcpy (BlobPtr off) (ConstantsStart br) sz]\<rparr>"
          and "p = BlobPtr off"
          by (simp_all add: bind_err_def split: if_splits)
        with m1 False nskip show ?thesis by (intro exI [of _ mm]) simp
      qed
    qed
  qed
qed


lemma load_constant_skipped:
  "skipped cfg (constants_info m ! i) \<Longrightarrow> load_constant cfg env offs i (m, br) = Inr (m, br)"
  by (simp add: load_constant_def skipped_def Let_def)

lemma load_constant_unfold:
  assumes "\<not> skipped cfg (constants_info m ! i)"
  shows "load_constant cfg env offs i (m, br) =
     bind_err
       (if info_data_size (constants_info m ! i) \<noteq> 0
        then constant_ptr cfg env m (offs ! i) br (info_data_size (constants_info m ! i))
               (info_from_folded (constants_info m ! i))
        else Inr (m, Nullptr))
       (\<lambda>(m1, internal_ptr).
          if use_create_tensor_from_blob_v1 cfg
               \<and> length (info_opaque_metadata (constants_info m ! i)) \<noteq> 0
          then Inl OpaqueMetadataNotEmpty
          else
            (case create_tensor_from_blob env
                    (tensor_args_for cfg (device_type m1) (device_idx m1)
                       (constants_info m ! i) internal_ptr) of
               None \<Rightarrow> Inl TorchError
             | Some tensor_handle \<Rightarrow>
                 (case constants_map m1 of
                    None \<Rightarrow> Inl NullDereference
                  | Some cm \<Rightarrow>
                      Inr (m1\<lparr>constants_map :=
                                 Some (emplace cm (info_name (constants_info m ! i)) tensor_handle),
                              trace := trace m1 @
                                 [CreateTensor
                                    (tensor_args_for cfg (device_type m1) (device_idx m1)
                                       (constants_info m ! i) internal_ptr)]\<rparr>,
                           br + info_data_size (constants_info m ! i)))))"
proof -
  have c: "(build cfg = PureCPU \<and> info_from_folded (constants_info m ! i)) = False"
    using assms by (simp add: skipped_def)
  show ?thesis
    unfolding load_constant_def Let_def tensor_args_for_def prod.case c if_False ..
qed

lemma load_constant_Inr:
  assumes ok: "load_constant cfg env offs i (m, br) = Inr (m', br')"
    and ns: "\<not> skipped cfg (constants_info m ! i)"
  shows "\<exists>mm cm h.
           constants_map m = Some cm
           \<and> create_tensor_from_blob env
                 (tensor_args_for cfg (device_type m) (device_idx m) (constants_info m ! i)
                    (data_ptr_for cfg (constants_info m ! i) (offs ! i) br)) = Some h
           \<and> m' = m\<lparr>self_mmap := mm,
                     constants_map := Some (emplace cm (info_name (constants_info m ! i)) h),
                     trace := trace m @
                       expected_effects cfg (device_type m) (device_idx m)
                         (constants_info m ! i) (offs ! i) br\<rparr>
           \<and> br' = br + info_data_size (constants_info m ! i)"
proof -
  let ?c = "constants_info m ! i"
  let ?P = "if info_data_size ?c \<noteq> 0
            then constant_ptr cfg env m (offs ! i) br (info_data_size ?c) (info_from_folded ?c)
            else Inr (m, Nullptr)"
  let ?copy = "if build cfg \<noteq> PureCPU \<and> info_data_size ?c \<noteq> 0 \<and> \<not> info_from_folded ?c
               then [Memcpy (BlobPtr (offs ! i)) (ConstantsStart br) (info_data_size ?c)] else []"
  note u = load_constant_unfold [OF ns, of env offs br]
  obtain m1 p where P: "?P = Inr (m1, p)"
    using ok unfolding u by (cases ?P) (auto simp: bind_err_def)
  have "\<exists>mm. m1 = m\<lparr>self_mmap := mm, trace := trace m @ ?copy\<rparr>
             \<and> p = data_ptr_for cfg ?c (offs ! i) br"
  proof (cases "info_data_size ?c = 0")
    case True
    with P have "m1 = m" "p = Nullptr" by simp_all
    with True show ?thesis
      by (intro exI [of _ "self_mmap m"]) (simp add: data_ptr_for_def)
  next
    case False
    with P have "constant_ptr cfg env m (offs ! i) br (info_data_size ?c) (info_from_folded ?c)
                   = Inr (m1, p)" by simp
    from constant_ptr_Inr [OF this] obtain mm where
      "m1 = m\<lparr>self_mmap := mm,
               trace := trace m @ (if build cfg \<noteq> PureCPU \<and> \<not> info_from_folded ?c
                                   then [Memcpy (BlobPtr (offs ! i)) (ConstantsStart br)
                                           (info_data_size ?c)]
                                   else [])\<rparr>"
      and "p = (if build cfg = PureCPU then ConstantsStart br else BlobPtr (offs ! i))"
      by blast
    with False show ?thesis
      by (intro exI [of _ mm]) (simp add: data_ptr_for_def)
  qed
  then obtain mm where m1: "m1 = m\<lparr>self_mmap := mm, trace := trace m @ ?copy\<rparr>"
    and p: "p = data_ptr_for cfg ?c (offs ! i) br" by blast
  let ?args = "tensor_args_for cfg (device_type m) (device_idx m) ?c p"
  have dev: "device_type m1 = device_type m" "device_idx m1 = device_idx m"
    "constants_map m1 = constants_map m"
    using m1 by simp_all
  have rest:
    "(if use_create_tensor_from_blob_v1 cfg \<and> length (info_opaque_metadata ?c) \<noteq> 0
      then Inl OpaqueMetadataNotEmpty
      else
        (case create_tensor_from_blob env ?args of
           None \<Rightarrow> Inl TorchError
         | Some tensor_handle \<Rightarrow>
             (case constants_map m of
                None \<Rightarrow> Inl NullDereference
              | Some cm \<Rightarrow>
                  Inr (m1\<lparr>constants_map := Some (emplace cm (info_name ?c) tensor_handle),
                          trace := trace m1 @ [CreateTensor ?args]\<rparr>,
                       br + info_data_size ?c)))) = Inr (m', br')"
    using ok unfolding u P bind_err_def sum.case prod.case dev .
  then obtain h where h: "create_tensor_from_blob env ?args = Some h"
    by (cases "create_tensor_from_blob env ?args") (auto split: if_splits)
  from rest h obtain cm where cm: "constants_map m = Some cm"
    by (cases "constants_map m") (auto split: if_splits)
  from rest h cm have res:
    "m' = m1\<lparr>constants_map := Some (emplace cm (info_name ?c) h),
              trace := trace m1 @ [CreateTensor ?args]\<rparr>"
    "br' = br + info_data_size ?c"
    by (auto split: if_splits)
  have eff: "?copy @ [CreateTensor ?args] =
               expected_effects cfg (device_type m) (device_idx m) ?c (offs ! i) br"
    using ns p by (simp add: expected_effects_def)
  have "m' = m\<lparr>self_mmap := mm,
                 constants_map := Some (emplace cm (info_name ?c) h),
                 trace := trace m @ expected_effects cfg (device_type m) (device_idx m)
                            ?c (offs ! i) br\<rparr>"
    unfolding res(1) m1 eff [symmetric] by simp
  with cm h p res(2) show ?thesis by blast
qed


lemma bind_err_Inr_iff:
  "bind_err r f = Inr y \<longleftrightarrow> (\<exists>x. r = Inr x \<and> f x = Inr y)"
  by (cases r) (simp_all add: bind_err_def)

lemma load_loop_append:
  "load_loop cfg env offs (xs @ ys) st =
     bind_err (load_loop cfg env offs xs st) (load_loop cfg env offs ys)"
proof (induction xs arbitrary: st)
  case Nil
  show ?case by (simp add: bind_err_def)
next
  case (Cons i xs)
  show ?case
    by (cases "load_constant cfg env offs i st") (simp_all add: bind_err_def Cons.IH)
qed

lemma load_loop_single:
  "load_loop cfg env offs [i] st = load_constant cfg env offs i st"
  by (cases "load_constant cfg env offs i st") (simp_all add: bind_err_def)

lemma load_loop_Suc_Inr:
  assumes "load_loop cfg env offs [0..<Suc k] (m, 0) = Inr (m', br')"
  shows "\<exists>mk bk. load_loop cfg env offs [0..<k] (m, 0) = Inr (mk, bk)
                 \<and> load_constant cfg env offs k (mk, bk) = Inr (m', br')"
proof -
  have "load_loop cfg env offs [0..<Suc k] (m, 0) =
          bind_err (load_loop cfg env offs [0..<k] (m, 0)) (load_constant cfg env offs k)"
    using load_loop_append [of cfg env offs "[0..<k]" "[k]" "(m, 0)"]
    by (simp add: load_loop_single [abs_def])
  with assms have "bind_err (load_loop cfg env offs [0..<k] (m, 0)) (load_constant cfg env offs k)
                     = Inr (m', br')" by simp
  then show ?thesis unfolding bind_err_Inr_iff by auto
qed

lemma read_cursor_Suc:
  "k < length infos \<Longrightarrow>
   read_cursor cfg infos (Suc k) =
     (if skipped cfg (infos ! k) then read_cursor cfg infos k
      else read_cursor cfg infos k + info_data_size (infos ! k))"
  by (simp add: read_cursor_def take_Suc_conv_app_nth)

lemma load_loop_upt:
  assumes cm0: "constants_map m = Some cm0"
  shows "k \<le> length (constants_info m) \<Longrightarrow>
         load_loop cfg env offs [0..<k] (m, 0) = Inr (m', br) \<Longrightarrow>
         \<exists>mm cm.
           m' = m\<lparr>self_mmap := mm, constants_map := Some cm,
                   trace := trace m @
                     concat (map (\<lambda>i. expected_effects cfg (device_type m) (device_idx m)
                                        (constants_info m ! i) (offs ! i)
                                        (read_cursor cfg (constants_info m) i)) [0..<k])\<rparr>
           \<and> br = read_cursor cfg (constants_info m) k
           \<and> (\<forall>nm. (\<forall>j < k. info_name (constants_info m ! j) = nm \<longrightarrow>
                            skipped cfg (constants_info m ! j)) \<longrightarrow> cm nm = cm0 nm)"
proof (induction k arbitrary: m' br)
  case 0
  then have "m' = m" "br = 0" by simp_all
  then show ?case
    using cm0
    by (intro exI [of _ "self_mmap m"] exI [of _ cm0]) (simp add: read_cursor_def)
next
  case (Suc k)
  let ?infos = "constants_info m"
  let ?eff = "\<lambda>i. expected_effects cfg (device_type m) (device_idx m)
                      (?infos ! i) (offs ! i) (read_cursor cfg ?infos i)"
  from Suc.prems have k: "k < length ?infos" by simp
  from load_loop_Suc_Inr [OF Suc.prems(2)] obtain mk bk where
    pre: "load_loop cfg env offs [0..<k] (m, 0) = Inr (mk, bk)"
    and step: "load_constant cfg env offs k (mk, bk) = Inr (m', br)" by blast
  from Suc.IH [OF _ pre] k obtain mm cm where
    mk: "mk = m\<lparr>self_mmap := mm, constants_map := Some cm,
                  trace := trace m @ concat (map ?eff [0..<k])\<rparr>"
    and bk: "bk = read_cursor cfg ?infos k"
    and inv: "\<forall>nm. (\<forall>j < k. info_name (?infos ! j) = nm \<longrightarrow> skipped cfg (?infos ! j))
                 \<longrightarrow> cm nm = cm0 nm"
    by auto
  have fields: "constants_info mk = ?infos" "device_type mk = device_type m"
    "device_idx mk = device_idx m" "constants_map mk = Some cm"
    "trace mk = trace m @ concat (map ?eff [0..<k])"
    using mk by simp_all
  show ?case
  proof (cases "skipped cfg (?infos ! k)")
    case True
    then have "load_constant cfg env offs k (mk, bk) = Inr (mk, bk)"
      using load_constant_skipped [of cfg mk k env offs bk] fields by simp
    with step have same: "m' = mk" "br = bk" by simp_all
    have e: "?eff k = []" using True by (simp add: expected_effects_def)
    have "m' = m\<lparr>self_mmap := mm, constants_map := Some cm,
                   trace := trace m @ concat (map ?eff [0..<Suc k])\<rparr>"
      using same mk e by simp
    moreover have "br = read_cursor cfg ?infos (Suc k)"
      using same bk True k by (simp add: read_cursor_Suc)
    moreover have "\<forall>nm. (\<forall>j < Suc k. info_name (?infos ! j) = nm \<longrightarrow> skipped cfg (?infos ! j))
                      \<longrightarrow> cm nm = cm0 nm"
      using inv by simp
    ultimately show ?thesis by blast
  next
    case False
    then have ns: "\<not> skipped cfg (constants_info mk ! k)" using fields by simp
    from load_constant_Inr [OF step ns] obtain mm' cm' h where
      cmk: "constants_map mk = Some cm'"
      and m': "m' = mk\<lparr>self_mmap := mm',
                        constants_map := Some (emplace cm' (info_name (constants_info mk ! k)) h),
                        trace := trace mk @
                          expected_effects cfg (device_type mk) (device_idx mk)
                            (constants_info mk ! k) (offs ! k) bk\<rparr>"
      and br: "br = bk + info_data_size (constants_info mk ! k)"
      by blast
    from cmk fields have cm': "cm' = cm" by simp
    let ?cm = "emplace cm (info_name (?infos ! k)) h"
    have "m' = m\<lparr>self_mmap := mm', constants_map := Some ?cm,
                   trace := trace m @ concat (map ?eff [0..<Suc k])\<rparr>"
      unfolding m' cm' fields bk unfolding mk by simp
    moreover have "br = read_cursor cfg ?infos (Suc k)"
      using br bk False k fields by (simp add: read_cursor_Suc)
    moreover have "\<forall>nm. (\<forall>j < Suc k. info_name (?infos ! j) = nm \<longrightarrow> skipped cfg (?infos ! j))
                      \<longrightarrow> ?cm nm = cm0 nm"
    proof (intro allI impI)
      fix nm
      assume a: "\<forall>j < Suc k. info_name (?infos ! j) = nm \<longrightarrow> skipped cfg (?infos ! j)"
      then have "info_name (?infos ! k) \<noteq> nm" using False by auto
      then have "?cm nm = cm nm" by (simp add: emplace_def)
      moreover from a inv have "cm nm = cm0 nm" by simp
      ultimately show "?cm nm = cm0 nm" by simp
    qed
    ultimately show ?thesis by blast
  qed
qed

lemma registry_after_Suc:
  "registry_after cfg env dev idx infos offs cm0 (Suc k) =
     registry_step cfg env dev idx infos offs (registry_after cfg env dev idx infos offs cm0 k) k"
  by (simp add: registry_after_def)

lemma registry_step_keeps:
  "cm nm \<noteq> None \<Longrightarrow> registry_step cfg env dev idx infos offs cm j nm = cm nm"
  by (auto simp: registry_step_def emplace_def split: option.splits)

lemma registry_step_other:
  "info_name (infos ! j) \<noteq> nm \<Longrightarrow> registry_step cfg env dev idx infos offs cm j nm = cm nm"
  by (auto simp: registry_step_def emplace_def split: option.splits)

lemma registry_after_keeps:
  assumes "registry_after cfg env dev idx infos offs cm0 j nm \<noteq> None"
  shows "j \<le> k \<Longrightarrow>
         registry_after cfg env dev idx infos offs cm0 k nm =
         registry_after cfg env dev idx infos offs cm0 j nm"
proof (induction k)
  case 0
  then show ?case by simp
next
  case (Suc k)
  show ?case
  proof (cases "j = Suc k")
    case True
    then show ?thesis by simp
  next
    case False
    with Suc.prems have jk: "j \<le> k" by simp
    from Suc.IH [OF jk] assms
    have "registry_after cfg env dev idx infos offs cm0 k nm \<noteq> None" by simp
    then show ?thesis
      unfolding registry_after_Suc using Suc.IH [OF jk] by (simp add: registry_step_keeps)
  qed
qed

lemma registry_after_fresh:
  assumes "cm0 nm = None"
  shows "(\<forall>j < k. \<not> skipped cfg (infos ! j) \<longrightarrow> info_name (infos ! j) \<noteq> nm) \<Longrightarrow>
         registry_after cfg env dev idx infos offs cm0 k nm = None"
proof (induction k)
  case 0
  with assms show ?case by (simp add: registry_after_def)
next
  case (Suc k)
  then have IH: "registry_after cfg env dev idx infos offs cm0 k nm = None" by simp
  from Suc.prems have "skipped cfg (infos ! k) \<or> info_name (infos ! k) \<noteq> nm" by auto
  then show ?case
    unfolding registry_after_Suc using IH
    by (auto simp: registry_step_other) (simp add: registry_step_def)
qed

lemma load_loop_registry:
  assumes cm0: "constants_map m = Some cm0"
  shows "k \<le> length (constants_info m) \<Longrightarrow>
         load_loop cfg env offs [0..<k] (m, 0) = Inr (m', br) \<Longrightarrow>
         constants_map m' =
           Some (registry_after cfg env (device_type m) (device_idx m) (constants_info m) offs cm0 k)
         \<and> (\<forall>j < k. \<not> skipped cfg (constants_info m ! j) \<longrightarrow>
               create_tensor_from_blob env
                 (handle_args cfg (device_type m) (device_idx m) (constants_info m) offs j)
               \<noteq> None)"
proof (induction k arbitrary: m' br)
  case 0
  then have "m' = m" by simp
  with cm0 show ?case by (simp add: registry_after_def)
next
  case (Suc k)
  let ?infos = "constants_info m"
  let ?reg = "registry_after cfg env (device_type m) (device_idx m) ?infos offs cm0"
  from Suc.prems have k: "k < length ?infos" and kle: "k \<le> length ?infos" by simp_all
  from load_loop_Suc_Inr [OF Suc.prems(2)] obtain mk bk where
    pre: "load_loop cfg env offs [0..<k] (m, 0) = Inr (mk, bk)"
    and step: "load_constant cfg env offs k (mk, bk) = Inr (m', br)" by blast
  from Suc.IH [OF kle pre] have
    regk: "constants_map mk = Some (?reg k)"
    and crk: "\<forall>j < k. \<not> skipped cfg (?infos ! j) \<longrightarrow>
               create_tensor_from_blob env
                 (handle_args cfg (device_type m) (device_idx m) ?infos offs j) \<noteq> None"
    by simp_all
  from load_loop_upt [OF cm0 kle pre] obtain mm cm where
    mk: "mk = m\<lparr>self_mmap := mm, constants_map := Some cm,
                  trace := trace m @
                    concat (map (\<lambda>i. expected_effects cfg (device_type m) (device_idx m)
                                       (?infos ! i) (offs ! i) (read_cursor cfg ?infos i)) [0..<k])\<rparr>"
    and bk: "bk = read_cursor cfg ?infos k"
    by blast
  have fields: "constants_info mk = ?infos" "device_type mk = device_type m"
    "device_idx mk = device_idx m"
    using mk by simp_all
  show ?case
  proof (cases "skipped cfg (?infos ! k)")
    case True
    then have "load_constant cfg env offs k (mk, bk) = Inr (mk, bk)"
      using load_constant_skipped [of cfg mk k env offs bk] fields by simp
    with step have "m' = mk" by simp
    with regk True crk show ?thesis
      by (auto simp: registry_after_Suc registry_step_def less_Suc_eq)
  next
    case False
    then have ns: "\<not> skipped cfg (constants_info mk ! k)" using fields by simp
    from load_constant_Inr [OF step ns] obtain mm' cm' h where
      cmk: "constants_map mk = Some cm'"
      and cr: "create_tensor_from_blob env
                 (tensor_args_for cfg (device_type mk) (device_idx mk) (constants_info mk ! k)
                    (data_ptr_for cfg (constants_info mk ! k) (offs ! k) bk)) = Some h"
      and m': "m' = mk\<lparr>self_mmap := mm',
                        constants_map := Some (emplace cm' (info_name (constants_info mk ! k)) h),
                        trace := trace mk @
                          expected_effects cfg (device_type mk) (device_idx mk)
                            (constants_info mk ! k) (offs ! k) bk\<rparr>"
      by blast
    from cr have crh: "create_tensor_from_blob env
                 (handle_args cfg (device_type m) (device_idx m) ?infos offs k) = Some h"
      unfolding fields bk by (simp add: handle_args_def)
    from cmk regk have cm': "cm' = ?reg k" by simp
    have "constants_map m' = Some (?reg (Suc k))"
      unfolding m' cm' fields registry_after_Suc
      using False crh by (simp add: registry_step_def)
    moreover have "\<forall>j < Suc k. \<not> skipped cfg (?infos ! j) \<longrightarrow>
               create_tensor_from_blob env
                 (handle_args cfg (device_type m) (device_idx m) ?infos offs j) \<noteq> None"
      using crk crh by (auto simp: less_Suc_eq)
    ultimately show ?thesis by simp
  qed
qed

lemma unat_sum_list_mod:
  "unat (sum_list ws :: 64 word) = sum_list (map unat ws) mod 2 ^ 64"
proof (induction ws)
  case Nil
  show ?case by simp
next
  case (Cons w ws)
  have "unat (w + sum_list ws) = (unat w + unat (sum_list ws)) mod 2 ^ 64"
    by (simp add: unat_word_ariths)
  also have "\<dots> = (unat w + sum_list (map unat ws) mod 2 ^ 64) mod 2 ^ 64"
    by (simp only: Cons.IH)
  also have "\<dots> = (unat w + sum_list (map unat ws)) mod 2 ^ 64"
    by (rule mod_add_right_eq)
  finally show ?case by simp
qed

lemma read_cursor_unat_mod:
  "unat (read_cursor cfg infos i) = cursor_sum cfg infos i mod 2 ^ 64"
  by (simp add: read_cursor_def cursor_sum_def unat_sum_list_mod comp_def)

lemma cursor_sum_le_declared: "cursor_sum cfg infos i \<le> declared_sum infos i"
  unfolding cursor_sum_def declared_sum_def by (rule sum_list_filter_le_nat)

lemma declared_sum_le_total:
  "declared_sum infos i \<le> sum_list (map (\<lambda>c. unat (info_data_size c)) infos)"
  unfolding declared_sum_def take_map [symmetric] by (rule sum_list_take_total)

lemma read_cursor_unat:
  assumes "sum_list (map (\<lambda>c. unat (info_data_size c)) infos) < 2 ^ 64"
  shows "unat (read_cursor cfg infos i) = cursor_sum cfg infos i"
proof -
  have "cursor_sum cfg infos i < 2 ^ 64"
    using cursor_sum_le_declared [of cfg infos i] declared_sum_le_total [of infos i] assms
    by simp
  then show ?thesis by (simp add: read_cursor_unat_mod)
qed

lemma cursor_sum_all:
  "build cfg \<noteq> PureCPU \<Longrightarrow> cursor_sum cfg infos i = declared_sum infos i"
  by (simp add: cursor_sum_def declared_sum_def skipped_def)

lemma load_constants_alloc:
  assumes "(if device_type m \<noteq> DeviceCPU then
              (case compute_gpu_constant_blob cfg (constants_info m)
                      (0, replicate (length (constants_info m)) 0) of
                 (blob_size, offs) \<Rightarrow>
                   if build cfg = PureCPU then Inr (m, offs)
                   else if build cfg = UseCUDA \<and> \<not> gpu_malloc_ok env blob_size
                   then Inl DeviceError
                   else Inr (m\<lparr>constant_blob := Some blob_size,
                               trace := trace m @ [GpuMalloc blob_size]\<rparr>, offs))
            else Inr (m, replicate (length (constants_info m)) 0)) = Inr (m1, offs1)"
  shows "offs1 = layout_offsets cfg m
         \<and> (\<exists>cb. m1 = m\<lparr>constant_blob := cb, trace := trace m @ alloc_effects cfg m\<rparr>)"
proof (cases "device_type m = DeviceCPU")
  case True
  with assms have "m1 = m" "offs1 = replicate (length (constants_info m)) 0" by auto
  with True show ?thesis
    by (intro conjI exI [of _ "constant_blob m"]) (simp_all add: layout_offsets_def alloc_effects_def)
next
  case dev: False
  obtain bs offs where c: "compute_gpu_constant_blob cfg (constants_info m)
                      (0, replicate (length (constants_info m)) 0) = (bs, offs)"
    by (cases "compute_gpu_constant_blob cfg (constants_info m)
                      (0, replicate (length (constants_info m)) 0)")
  show ?thesis
  proof (cases "build cfg = PureCPU")
    case True
    with assms dev c have "m1 = m" "offs1 = offs" by auto
    with True dev c show ?thesis
      by (intro conjI exI [of _ "constant_blob m"]) (simp_all add: layout_offsets_def alloc_effects_def)
  next
    case False
    with assms dev c have "m1 = m\<lparr>constant_blob := Some bs, trace := trace m @ [GpuMalloc bs]\<rparr>"
      "offs1 = offs" by (auto split: if_splits)
    with False dev c show ?thesis
      by (intro conjI exI [of _ "Some bs"]) (simp_all add: layout_offsets_def alloc_effects_def)
  qed
qed

lemma load_constants_Inr:
  assumes iw: "include_weights m" and ok: "load_constants cfg env m = Inr m'"
  shows "\<exists>cm0 arr.
           constants_map m = Some cm0
           \<and> constants_map m' =
               Some (registry_after cfg env (device_type m) (device_idx m) (constants_info m)
                       (layout_offsets cfg m) cm0 (length (constants_info m)))
           \<and> trace m' = trace m @ alloc_effects cfg m
                 @ loop_effects cfg (device_type m) (device_idx m) (constants_info m)
                     (layout_offsets cfg m) [0..<length (constants_info m)]
           \<and> constants m' = Some arr
           \<and> length arr = length (constants_info m)
           \<and> (\<forall>i < length (constants_info m).
                 arr ! i =
                   (case registry_after cfg env (device_type m) (device_idx m) (constants_info m)
                           (layout_offsets cfg m) cm0 (length (constants_info m))
                           (info_name (constants_info m ! i)) of
                      Some h \<Rightarrow> Some h
                    | None \<Rightarrow> kept_slot (constants m) i))
           \<and> (\<forall>j < length (constants_info m). \<not> skipped cfg (constants_info m ! j) \<longrightarrow>
                 create_tensor_from_blob env
                   (handle_args cfg (device_type m) (device_idx m) (constants_info m)
                      (layout_offsets cfg m) j) \<noteq> None)"
proof -
  let ?n = "length (constants_info m)"
  let ?infos = "constants_info m"
  let ?offs = "layout_offsets cfg m"
  let ?A = "if device_type m \<noteq> DeviceCPU then
              (case compute_gpu_constant_blob cfg ?infos (0, replicate ?n 0) of
                 (blob_size, offs) \<Rightarrow>
                   if build cfg = PureCPU then Inr (m, offs)
                   else if build cfg = UseCUDA \<and> \<not> gpu_malloc_ok env blob_size
                   then Inl DeviceError
                   else Inr (m\<lparr>constant_blob := Some blob_size,
                               trace := trace m @ [GpuMalloc blob_size]\<rparr>, offs))
            else Inr (m, replicate ?n 0)"
  from ok obtain cm0 where cm0: "constants_map m = Some cm0"
    by (cases "constants_map m") (simp_all add: load_constants_def)
  have u: "load_constants cfg env m =
             bind_err ?A
               (\<lambda>(m1, constants_internal_offset).
                  if \<not> include_weights m1 then Inr m1
                  else
                    bind_err
                      (load_loop cfg env constants_internal_offset [0..<?n] (m1, 0))
                      (\<lambda>(m2, bytes_read).
                         if constants_map m2 \<noteq> None then update_constants_array_from_map m2
                         else Inr m2))"
    unfolding load_constants_def Let_def cm0 option.case ..
  from ok [unfolded u bind_err_Inr_iff] obtain st1 where
    A: "?A = Inr st1"
    and rest1: "(case st1 of (m1, constants_internal_offset) \<Rightarrow>
                  if \<not> include_weights m1 then Inr m1
                  else
                    bind_err
                      (load_loop cfg env constants_internal_offset [0..<?n] (m1, 0))
                      (\<lambda>(m2, bytes_read).
                         if constants_map m2 \<noteq> None then update_constants_array_from_map m2
                         else Inr m2)) = Inr m'"
    by blast
  obtain m1 offs1 where st1: "st1 = (m1, offs1)" by (cases st1)
  from load_constants_alloc [OF A [unfolded st1]] obtain cb where
    offs1: "offs1 = ?offs"
    and m1: "m1 = m\<lparr>constant_blob := cb, trace := trace m @ alloc_effects cfg m\<rparr>"
    by blast
  have f1: "include_weights m1" "constants_map m1 = Some cm0" "constants_info m1 = ?infos"
    "device_type m1 = device_type m" "device_idx m1 = device_idx m"
    "trace m1 = trace m @ alloc_effects cfg m" "constants m1 = constants m"
    using m1 iw cm0 by simp_all
  from rest1 have "bind_err (load_loop cfg env ?offs [0..<?n] (m1, 0))
                      (\<lambda>(m2, bytes_read).
                         if constants_map m2 \<noteq> None then update_constants_array_from_map m2
                         else Inr m2) = Inr m'"
    unfolding st1 prod.case offs1 using f1(1) by simp
  then obtain st2 where
    L: "load_loop cfg env ?offs [0..<?n] (m1, 0) = Inr st2"
    and rest2: "(case st2 of (m2, bytes_read) \<Rightarrow>
                         if constants_map m2 \<noteq> None then update_constants_array_from_map m2
                         else Inr m2) = Inr m'"
    unfolding bind_err_Inr_iff by blast
  obtain m2 br where st2: "st2 = (m2, br)" by (cases st2)
  have n1: "length (constants_info m) \<le> length (constants_info m1)" using f1 by simp
  from load_loop_upt [OF f1(2) n1 L [unfolded st2]] obtain mm cm where
    m2: "m2 = m1\<lparr>self_mmap := mm, constants_map := Some cm,
                  trace := trace m1 @
                    concat (map (\<lambda>i. expected_effects cfg (device_type m1) (device_idx m1)
                                       (constants_info m1 ! i) (?offs ! i)
                                       (read_cursor cfg (constants_info m1) i)) [0..<?n])\<rparr>"
    by blast
  from load_loop_registry [OF f1(2) n1 L [unfolded st2]] have
    reg: "constants_map m2 =
            Some (registry_after cfg env (device_type m) (device_idx m) ?infos ?offs cm0 ?n)"
    and cr: "\<forall>j < ?n. \<not> skipped cfg (?infos ! j) \<longrightarrow>
               create_tensor_from_blob env
                 (handle_args cfg (device_type m) (device_idx m) ?infos ?offs j) \<noteq> None"
    unfolding f1 by simp_all
  have f2: "constants_info m2 = ?infos" "constants m2 = constants m"
    "trace m2 = trace m @ alloc_effects cfg m
        @ loop_effects cfg (device_type m) (device_idx m) ?infos ?offs [0..<?n]"
    unfolding m2 loop_effects_def using f1 by simp_all
  from rest2 reg have fin: "update_constants_array_from_map m2 = Inr m'"
    unfolding st2 by simp
  from update_constants_array_from_map_result [OF reg] fin obtain arr where
    m': "m' = m2\<lparr>constants := Some arr\<rparr>"
    and len: "length arr = length (constants_info m2)"
    and slots: "\<forall>i < length (constants_info m2).
                 arr ! i =
                   (case registry_after cfg env (device_type m) (device_idx m) ?infos ?offs cm0 ?n
                           (info_name (constants_info m2 ! i)) of
                      Some h \<Rightarrow> Some h
                    | None \<Rightarrow> kept_slot (constants m2) i)"
    by auto
  have "constants_map m' =
          Some (registry_after cfg env (device_type m) (device_idx m) ?infos ?offs cm0 ?n)"
    using m' reg by simp
  moreover have "trace m' = trace m @ alloc_effects cfg m
        @ loop_effects cfg (device_type m) (device_idx m) ?infos ?offs [0..<?n]"
    using m' f2 by simp
  moreover have "constants m' = Some arr" using m' by simp
  moreover have "length arr = ?n" using len f2 by simp
  moreover have "\<forall>i < ?n. arr ! i =
                   (case registry_after cfg env (device_type m) (device_idx m) ?infos ?offs cm0 ?n
                           (info_name (?infos ! i)) of
                      Some h \<Rightarrow> Some h
                    | None \<Rightarrow> kept_slot (constants m) i)"
    using slots unfolding f2 .
  ultimately show ?thesis using cm0 cr by blast
qed

lemma loop_effects_append:
  "loop_effects cfg dev idx infos offs (xs @ ys) =
     loop_effects cfg dev idx infos offs xs @ loop_effects cfg dev idx infos offs ys"
  by (simp add: loop_effects_def)

lemma loop_effects_split:
  assumes "i < n"
  shows "loop_effects cfg dev idx infos offs [0..<n] =
           loop_effects cfg dev idx infos offs [0..<i]
           @ expected_effects cfg dev idx (infos ! i) (offs ! i) (read_cursor cfg infos i)
           @ loop_effects cfg dev idx infos offs [Suc i..<n]"
proof -
  from assms have "[0..<n] = [0..<i] @ i # [Suc i..<n]"
    by (metis less_imp_le_nat upt_add_eq_append upt_conv_Cons le0 le_add_diff_inverse)
  then show ?thesis by (simp add: loop_effects_def)
qed

lemma registry_after_0:
  "registry_after cfg env dev idx infos offs cm0 0 = cm0"
  by (simp add: registry_after_def)


text \<open>
  C7 (amended). A call of \<open>load_constants\<close> with \<open>include_weights\<close> that returns has
  gone through the constants in ordinal order from read cursor 0, and has left exactly
  these effects: the allocation of the blob, and then for every constant that is not passed
  over (in the pure CPU build the folded ones are) the copy, if the constant has bytes to
  copy, and the construction of its tensor. The copy reads from the payload at the read
  cursor and writes to the blob at the layout offset; in the pure CPU build the tensor is
  constructed on the payload at the read cursor. The read cursor of constant \<open>i\<close> is the
  sum of the declared data sizes of the earlier constants that were not passed over, taken
  in \<open>size_t\<close>, that is modulo \<open>2^64\<close>; it is the sum itself when the declared data
  sizes of all constants stay below \<open>2^64\<close>, and with \<open>USE_CUDA\<close> or \<open>USE_XPU\<close>
  it is the sum over all earlier constants. The layout offsets on a device are those of
  \<open>compute_gpu_constant_blob\<close>, the sums of the rounded sizes.
\<close>

theorem load_constants_source_cursor:
  assumes "include_weights m" and "load_constants cfg env m = Inr m'"
  shows "trace m' = trace m @ alloc_effects cfg m @
           concat (map (\<lambda>i.
               if skipped cfg (constants_info m ! i) then []
               else
                 (if build cfg \<noteq> PureCPU \<and> info_data_size (constants_info m ! i) \<noteq> 0
                       \<and> \<not> info_from_folded (constants_info m ! i)
                  then [Memcpy (BlobPtr (layout_offsets cfg m ! i))
                          (ConstantsStart (read_cursor cfg (constants_info m) i))
                          (info_data_size (constants_info m ! i))]
                  else [])
                 @ [CreateTensor
                      (tensor_args_for cfg (device_type m) (device_idx m) (constants_info m ! i)
                         (if info_data_size (constants_info m ! i) = 0 then Nullptr
                          else if build cfg = PureCPU
                          then ConstantsStart (read_cursor cfg (constants_info m) i)
                          else BlobPtr (layout_offsets cfg m ! i)))])
             [0..<num_constants m])
         \<and> (\<forall>i. unat (read_cursor cfg (constants_info m) i) =
                   cursor_sum cfg (constants_info m) i mod 2 ^ 64)
         \<and> (sum_list (map (\<lambda>c. unat (info_data_size c)) (constants_info m)) < 2 ^ 64 \<longrightarrow>
               (\<forall>i. unat (read_cursor cfg (constants_info m) i) =
                      cursor_sum cfg (constants_info m) i))
         \<and> (build cfg \<noteq> PureCPU \<longrightarrow>
               (\<forall>i. cursor_sum cfg (constants_info m) i = declared_sum (constants_info m) i))
         \<and> (build cfg \<noteq> PureCPU \<and> device_type m \<noteq> DeviceCPU \<longrightarrow>
               layout_offsets cfg m =
                 map (blob_prefix (constants_info m)) [0..<num_constants m])"
proof -
  from load_constants_Inr [OF assms] have
    "trace m' = trace m @ alloc_effects cfg m
         @ loop_effects cfg (device_type m) (device_idx m) (constants_info m)
             (layout_offsets cfg m) [0..<length (constants_info m)]"
    by blast
  then have t: "trace m' = trace m @ alloc_effects cfg m @
           concat (map (\<lambda>i.
               if skipped cfg (constants_info m ! i) then []
               else
                 (if build cfg \<noteq> PureCPU \<and> info_data_size (constants_info m ! i) \<noteq> 0
                       \<and> \<not> info_from_folded (constants_info m ! i)
                  then [Memcpy (BlobPtr (layout_offsets cfg m ! i))
                          (ConstantsStart (read_cursor cfg (constants_info m) i))
                          (info_data_size (constants_info m ! i))]
                  else [])
                 @ [CreateTensor
                      (tensor_args_for cfg (device_type m) (device_idx m) (constants_info m ! i)
                         (if info_data_size (constants_info m ! i) = 0 then Nullptr
                          else if build cfg = PureCPU
                          then ConstantsStart (read_cursor cfg (constants_info m) i)
                          else BlobPtr (layout_offsets cfg m ! i)))])
             [0..<num_constants m])"
    unfolding loop_effects_def expected_effects_def data_ptr_for_def num_constants_def .
  have l: "layout_offsets cfg m = map (blob_prefix (constants_info m)) [0..<num_constants m]"
    if "build cfg \<noteq> PureCPU \<and> device_type m \<noteq> DeviceCPU"
    using that compute_gpu_constant_blob_eq [of cfg "replicate (length (constants_info m)) 0"
        "constants_info m" 0]
    by (simp add: layout_offsets_def num_constants_def)
  show ?thesis
    using t l read_cursor_unat_mod [of cfg "constants_info m"]
      read_cursor_unat [of "constants_info m" cfg]
      cursor_sum_all [of cfg "constants_info m"]
    by blast
qed


lemma example_load_cuda:
  "load_constants (example_config UseCUDA) example_env
     (example_model [example_const ''a'' 100 False, example_const ''b'' 64 False] DeviceCUDA True)
   = Inr ((example_model [example_const ''a'' 100 False, example_const ''b'' 64 False]
             DeviceCUDA True)
            \<lparr>constants_map :=
               Some [''a'' \<mapsto> tensor_args_for (example_config UseCUDA) DeviceCUDA (- 1)
                                  (example_const ''a'' 100 False) (BlobPtr 0),
                     ''b'' \<mapsto> tensor_args_for (example_config UseCUDA) DeviceCUDA (- 1)
                                  (example_const ''b'' 64 False) (BlobPtr 128)],
             constants :=
               Some [Some (tensor_args_for (example_config UseCUDA) DeviceCUDA (- 1)
                             (example_const ''a'' 100 False) (BlobPtr 0)),
                     Some (tensor_args_for (example_config UseCUDA) DeviceCUDA (- 1)
                             (example_const ''b'' 64 False) (BlobPtr 128))],
             constant_blob := Some 192,
             trace :=
               [GpuMalloc 192,
                Memcpy (BlobPtr 0) (ConstantsStart 0) 100,
                CreateTensor (tensor_args_for (example_config UseCUDA) DeviceCUDA (- 1)
                                (example_const ''a'' 100 False) (BlobPtr 0)),
                Memcpy (BlobPtr 128) (ConstantsStart 100) 64,
                CreateTensor (tensor_args_for (example_config UseCUDA) DeviceCUDA (- 1)
                                (example_const ''b'' 64 False) (BlobPtr 128))]\<rparr>)"
  by (simp add: load_constants_def upt_rec load_constant_def Let_def constant_ptr_def
      get_constants_start_def bind_err_def emplace_def tensor_args_for_def
      update_constants_array_from_map_def compute_gpu_constant_blob_def)


text \<open>
  The theorem in the CUDA build on two constants of 100 and 64 bytes: the second one is
  read from the payload at 100 and written to the blob at 128.
\<close>

theorem load_constants_source_cursor_witness:
  "include_weights
     (example_model [example_const ''a'' 100 False, example_const ''b'' 64 False] DeviceCUDA True)
   \<and> sum_list (map (\<lambda>c. unat (info_data_size c))
                 [example_const ''a'' 100 False, example_const ''b'' 64 False]) < 2 ^ 64
   \<and> layout_offsets (example_config UseCUDA)
       (example_model [example_const ''a'' 100 False, example_const ''b'' 64 False] DeviceCUDA True)
     = [0, 128]
   \<and> unat (read_cursor (example_config UseCUDA)
              [example_const ''a'' 100 False, example_const ''b'' 64 False] 1) = 100
   \<and> declared_sum [example_const ''a'' 100 False, example_const ''b'' 64 False] 1 = 100
   \<and> [GpuMalloc 192,
       Memcpy (BlobPtr 0) (ConstantsStart 0) 100,
       CreateTensor (tensor_args_for (example_config UseCUDA) DeviceCUDA (- 1)
                       (example_const ''a'' 100 False) (BlobPtr 0)),
       Memcpy (BlobPtr 128) (ConstantsStart 100) 64,
       CreateTensor (tensor_args_for (example_config UseCUDA) DeviceCUDA (- 1)
                       (example_const ''b'' 64 False) (BlobPtr 128))]
     = alloc_effects (example_config UseCUDA)
         (example_model [example_const ''a'' 100 False, example_const ''b'' 64 False]
            DeviceCUDA True)
       @ [Memcpy (BlobPtr 0) (ConstantsStart 0) 100,
          CreateTensor (tensor_args_for (example_config UseCUDA) DeviceCUDA (- 1)
                          (example_const ''a'' 100 False) (BlobPtr 0)),
          Memcpy (BlobPtr 128)
            (ConstantsStart (read_cursor (example_config UseCUDA)
               [example_const ''a'' 100 False, example_const ''b'' 64 False] 1)) 64,
          CreateTensor (tensor_args_for (example_config UseCUDA) DeviceCUDA (- 1)
                          (example_const ''b'' 64 False) (BlobPtr 128))]"
proof -
  let ?infos = "[example_const ''a'' 100 False, example_const ''b'' 64 False]"
  let ?m = "example_model ?infos DeviceCUDA True"
  have h1: "include_weights ?m" by simp
  have h2: "sum_list (map (\<lambda>c. unat (info_data_size c)) (constants_info ?m)) < 2 ^ 64" by simp
  have h3: "build (example_config UseCUDA) \<noteq> PureCPU" by simp
  have h4: "build (example_config UseCUDA) \<noteq> PureCPU \<and> device_type ?m \<noteq> DeviceCPU" by simp
  note t = load_constants_source_cursor [OF h1 example_load_cuda]
  note t1 = t [THEN conjunct1]
  note t3 = t [THEN conjunct2, THEN conjunct2, THEN conjunct1, THEN mp, OF h2, THEN spec, of 1]
  note t4 = t [THEN conjunct2, THEN conjunct2, THEN conjunct2, THEN conjunct1, THEN mp, OF h3,
               THEN spec, of 1]
  note t5 = t [THEN conjunct2, THEN conjunct2, THEN conjunct2, THEN conjunct2, THEN mp, OF h4]
  have l: "layout_offsets (example_config UseCUDA) ?m = [0, 128]"
    using t5 by (simp add: num_constants_def upt_rec blob_prefix_def align64_def)
  have c: "unat (read_cursor (example_config UseCUDA) ?infos 1) = 100"
    using t3 by (simp add: cursor_sum_def skipped_def)
  have d: "declared_sum ?infos 1 = 100"
    using t4 by (simp add: cursor_sum_def skipped_def)
  have e: "[GpuMalloc 192,
       Memcpy (BlobPtr 0) (ConstantsStart 0) 100,
       CreateTensor (tensor_args_for (example_config UseCUDA) DeviceCUDA (- 1)
                       (example_const ''a'' 100 False) (BlobPtr 0)),
       Memcpy (BlobPtr 128) (ConstantsStart 100) 64,
       CreateTensor (tensor_args_for (example_config UseCUDA) DeviceCUDA (- 1)
                       (example_const ''b'' 64 False) (BlobPtr 128))]
     = alloc_effects (example_config UseCUDA) ?m
       @ [Memcpy (BlobPtr 0) (ConstantsStart 0) 100,
          CreateTensor (tensor_args_for (example_config UseCUDA) DeviceCUDA (- 1)
                          (example_const ''a'' 100 False) (BlobPtr 0)),
          Memcpy (BlobPtr 128) (ConstantsStart (read_cursor (example_config UseCUDA) ?infos 1)) 64,
          CreateTensor (tensor_args_for (example_config UseCUDA) DeviceCUDA (- 1)
                          (example_const ''b'' 64 False) (BlobPtr 128))]"
    using t1 l by (simp add: upt_rec num_constants_def skipped_def read_cursor_def)
  from h1 h2 l c d e show ?thesis by simp
qed


lemma size_t_wraps: "(18446744073709551616 :: 64 word) = 0"
  by simp


text \<open>
  C7 as stated fails. In the pure CPU build a folded constant of 8 declared bytes does not
  advance the cursor, so the next constant is read at 0 and not at 8. And the cursor is a
  \<open>size_t\<close>: after two constants of \<open>2^63\<close> declared bytes the third one is read at 0,
  while \<open>2^64\<close> bytes are declared before it.
\<close>

theorem load_constants_source_cursor_counterexample:
  "load_constants (example_config PureCPU) example_env
     (example_model [example_const ''a'' 8 True, example_const ''b'' 4 False] DeviceCPU True)
   = Inr ((example_model [example_const ''a'' 8 True, example_const ''b'' 4 False] DeviceCPU True)
            \<lparr>constants_map :=
               Some [''b'' \<mapsto> tensor_args_for (example_config PureCPU) DeviceCPU (- 1)
                                  (example_const ''b'' 4 False) (ConstantsStart 0)],
             constants :=
               Some [None, Some (tensor_args_for (example_config PureCPU) DeviceCPU (- 1)
                                   (example_const ''b'' 4 False) (ConstantsStart 0))],
             trace :=
               [CreateTensor (tensor_args_for (example_config PureCPU) DeviceCPU (- 1)
                                (example_const ''b'' 4 False) (ConstantsStart 0))]\<rparr>)
   \<and> declared_sum [example_const ''a'' 8 True, example_const ''b'' 4 False] 1 = 8
   \<and> load_constants (example_config PureCPU) example_env
       (example_model [example_const ''p'' 0x8000000000000000 False,
                       example_const ''q'' 0x8000000000000000 False,
                       example_const ''r'' 4 False] DeviceCPU True)
     = Inr ((example_model [example_const ''p'' 0x8000000000000000 False,
                            example_const ''q'' 0x8000000000000000 False,
                            example_const ''r'' 4 False] DeviceCPU True)
            \<lparr>constants_map :=
               Some [''p'' \<mapsto> tensor_args_for (example_config PureCPU) DeviceCPU (- 1)
                                  (example_const ''p'' 0x8000000000000000 False) (ConstantsStart 0),
                     ''q'' \<mapsto> tensor_args_for (example_config PureCPU) DeviceCPU (- 1)
                                  (example_const ''q'' 0x8000000000000000 False)
                                  (ConstantsStart 0x8000000000000000),
                     ''r'' \<mapsto> tensor_args_for (example_config PureCPU) DeviceCPU (- 1)
                                  (example_const ''r'' 4 False) (ConstantsStart 0)],
             constants :=
               Some [Some (tensor_args_for (example_config PureCPU) DeviceCPU (- 1)
                             (example_const ''p'' 0x8000000000000000 False) (ConstantsStart 0)),
                     Some (tensor_args_for (example_config PureCPU) DeviceCPU (- 1)
                             (example_const ''q'' 0x8000000000000000 False)
                             (ConstantsStart 0x8000000000000000)),
                     Some (tensor_args_for (example_config PureCPU) DeviceCPU (- 1)
                             (example_const ''r'' 4 False) (ConstantsStart 0))],
             trace :=
               [CreateTensor (tensor_args_for (example_config PureCPU) DeviceCPU (- 1)
                                (example_const ''p'' 0x8000000000000000 False) (ConstantsStart 0)),
                CreateTensor (tensor_args_for (example_config PureCPU) DeviceCPU (- 1)
                                (example_const ''q'' 0x8000000000000000 False)
                                (ConstantsStart 0x8000000000000000)),
                CreateTensor (tensor_args_for (example_config PureCPU) DeviceCPU (- 1)
                                (example_const ''r'' 4 False) (ConstantsStart 0))]\<rparr>)
   \<and> declared_sum [example_const ''p'' 0x8000000000000000 False,
                    example_const ''q'' 0x8000000000000000 False,
                    example_const ''r'' 4 False] 2 = 2 ^ 64"
  by (simp add: load_constants_def upt_rec load_constant_def Let_def constant_ptr_def
      get_constants_start_def bind_err_def emplace_def tensor_args_for_def
      update_constants_array_from_map_def declared_sum_def size_t_wraps)


lemma compute_gpu_constant_blob_cpu:
  "build cfg = PureCPU \<Longrightarrow> compute_gpu_constant_blob cfg infos args = args"
  by (simp add: compute_gpu_constant_blob_def)

lemma load_constants_cpu_unfold:
  assumes "build cfg = PureCPU" and "constants_map m = Some cm0"
  shows "load_constants cfg env m =
           (if \<not> include_weights m then Inr m
            else bind_err
                   (load_loop cfg env (replicate (length (constants_info m)) 0)
                      [0..<length (constants_info m)] (m, 0))
                   (\<lambda>(m2, bytes_read).
                      if constants_map m2 \<noteq> None then update_constants_array_from_map m2
                      else Inr m2))"
  using assms
  by (simp add: load_constants_def Let_def compute_gpu_constant_blob_cpu bind_err_def)

lemma load_constants_cpu_Inr:
  assumes cpu: "build cfg = PureCPU" and cm0: "constants_map m = Some cm0"
    and ok: "load_constants cfg env m = Inr m'"
  shows "\<exists>mm cm arr es.
           m' = m\<lparr>self_mmap := mm, constants_map := Some cm, constants := arr,
                   trace := trace m @ es\<rparr>
           \<and> (\<forall>e \<in> set es. \<exists>a. e = CreateTensor a)
           \<and> (\<forall>nm. (\<forall>c \<in> set (constants_info m). info_name c = nm \<longrightarrow> info_from_folded c)
                   \<longrightarrow> cm nm = cm0 nm)"
proof (cases "include_weights m")
  case False
  with ok have "m' = m" by (simp add: load_constants_cpu_unfold [OF cpu cm0])
  then have "m' = m\<lparr>self_mmap := self_mmap m, constants_map := Some cm0,
                     constants := constants m, trace := trace m @ []\<rparr>"
    using cm0 by simp
  then show ?thesis by (intro exI [of _ "self_mmap m"] exI [of _ cm0] exI [of _ "constants m"]
        exI [of _ "[]"]) simp
next
  case True
  let ?n = "length (constants_info m)"
  let ?offs = "replicate ?n (0 :: size_t)"
  let ?eff = "\<lambda>i. expected_effects cfg (device_type m) (device_idx m)
                      (constants_info m ! i) (?offs ! i) (read_cursor cfg (constants_info m) i)"
  from ok True have "bind_err (load_loop cfg env ?offs [0..<?n] (m, 0))
                   (\<lambda>(m2, bytes_read).
                      if constants_map m2 \<noteq> None then update_constants_array_from_map m2
                      else Inr m2) = Inr m'"
    by (simp add: load_constants_cpu_unfold [OF cpu cm0])
  then obtain st where st: "load_loop cfg env ?offs [0..<?n] (m, 0) = Inr st"
    and fin0: "(case st of (m2, bytes_read) \<Rightarrow>
                  if constants_map m2 \<noteq> None then update_constants_array_from_map m2
                  else Inr m2) = Inr m'"
    unfolding bind_err_Inr_iff by blast
  obtain m2 br where st2: "st = (m2, br)" by (cases st)
  have loop: "load_loop cfg env ?offs [0..<?n] (m, 0) = Inr (m2, br)"
    using st st2 by simp
  have fin: "(if constants_map m2 \<noteq> None then update_constants_array_from_map m2 else Inr m2)
                = Inr m'"
    using fin0 st2 by simp
  from load_loop_upt [OF cm0 _ loop] obtain mm cm where
    m2: "m2 = m\<lparr>self_mmap := mm, constants_map := Some cm,
                  trace := trace m @ concat (map ?eff [0..<?n])\<rparr>"
    and inv: "\<forall>nm. (\<forall>j < ?n. info_name (constants_info m ! j) = nm \<longrightarrow>
                          skipped cfg (constants_info m ! j)) \<longrightarrow> cm nm = cm0 nm"
    by auto
  have cm2: "constants_map m2 = Some cm" using m2 by simp
  from update_constants_array_from_map_result [OF cm2] fin cm2 obtain arr where
    m': "m' = m2\<lparr>constants := Some arr\<rparr>" by auto
  have events: "\<forall>e \<in> set (concat (map ?eff [0..<?n])). \<exists>a. e = CreateTensor a"
    using cpu by (auto simp: expected_effects_def)
  have names: "cm nm = cm0 nm"
    if "\<forall>c \<in> set (constants_info m). info_name c = nm \<longrightarrow> info_from_folded c" for nm
  proof -
    from that cpu
    have "\<forall>j < ?n. info_name (constants_info m ! j) = nm \<longrightarrow> skipped cfg (constants_info m ! j)"
      by (simp add: skipped_def)
    with inv show ?thesis by simp
  qed
  have "m' = m\<lparr>self_mmap := mm, constants_map := Some cm, constants := Some arr,
                 trace := trace m @ concat (map ?eff [0..<?n])\<rparr>"
    unfolding m' m2 by simp
  with events names show ?thesis by blast
qed

text \<open>
  C2 (amended). In the pure CPU build, with a map installed, the iteration for a constant
  with \<open>from_folded = true\<close> does nothing: no bytes are copied, nothing is allocated, no
  tensor is constructed, no registry entry is made and the read cursor stays. All of
  \<open>load_constants\<close> then neither allocates nor copies (only tensor constructions are
  recorded), and a name carried only by folded constants has in the registry what it had
  before the call.
\<close>

theorem load_constants_cpu_folded:
  assumes "build cfg = PureCPU" and "constants_map m = Some cm0"
  shows "(\<forall>i br offs. info_from_folded (constants_info m ! i) \<longrightarrow>
            load_constant cfg env offs i (m, br) = Inr (m, br))
         \<and> (\<forall>m'. load_constants cfg env m = Inr m' \<longrightarrow>
               constant_blob m' = constant_blob m
               \<and> (\<exists>es. trace m' = trace m @ es \<and> (\<forall>e \<in> set es. \<exists>a. e = CreateTensor a))
               \<and> (\<forall>nm. (\<forall>c \<in> set (constants_info m). info_name c = nm \<longrightarrow> info_from_folded c)
                       \<longrightarrow> (\<exists>cm. constants_map m' = Some cm \<and> cm nm = cm0 nm)))"
proof (intro conjI allI impI)
  fix i br offs
  assume "info_from_folded (constants_info m ! i)"
  with assms(1) show "load_constant cfg env offs i (m, br) = Inr (m, br)"
    by (intro load_constant_skipped) (simp add: skipped_def)
next
  fix m'
  assume ok: "load_constants cfg env m = Inr m'"
  from load_constants_cpu_Inr [OF assms ok] obtain mm cm arr es where
    m': "m' = m\<lparr>self_mmap := mm, constants_map := Some cm, constants := arr,
                  trace := trace m @ es\<rparr>"
    and ev: "\<forall>e \<in> set es. \<exists>a. e = CreateTensor a"
    and nm: "\<forall>nm. (\<forall>c \<in> set (constants_info m). info_name c = nm \<longrightarrow> info_from_folded c)
                   \<longrightarrow> cm nm = cm0 nm"
    by blast
  show "constant_blob m' = constant_blob m" using m' by simp
  show "\<exists>es. trace m' = trace m @ es \<and> (\<forall>e \<in> set es. \<exists>a. e = CreateTensor a)"
    using m' ev by auto
  fix name
  assume "\<forall>c \<in> set (constants_info m). info_name c = name \<longrightarrow> info_from_folded c"
  with nm have "cm name = cm0 name" by simp
  with m' show "\<exists>cm. constants_map m' = Some cm \<and> cm name = cm0 name" by simp
qed


lemma example_load_folded:
  "load_constants (example_config PureCPU) example_env
     (example_model [example_const ''w'' 8 True, example_const ''v'' 4 False] DeviceCPU True)
   = Inr ((example_model [example_const ''w'' 8 True, example_const ''v'' 4 False] DeviceCPU True)
            \<lparr>constants_map :=
               Some [''v'' \<mapsto> tensor_args_for (example_config PureCPU) DeviceCPU (- 1)
                                  (example_const ''v'' 4 False) (ConstantsStart 0)],
             constants :=
               Some [None, Some (tensor_args_for (example_config PureCPU) DeviceCPU (- 1)
                                   (example_const ''v'' 4 False) (ConstantsStart 0))],
             trace :=
               [CreateTensor (tensor_args_for (example_config PureCPU) DeviceCPU (- 1)
                                (example_const ''v'' 4 False) (ConstantsStart 0))]\<rparr>)"
  by (simp add: load_constants_def upt_rec load_constant_def Let_def constant_ptr_def
      get_constants_start_def bind_err_def emplace_def tensor_args_for_def
      update_constants_array_from_map_def)

text \<open>The theorem on a folded constant \<open>"w"\<close> followed by an ordinary one.\<close>

theorem load_constants_cpu_folded_witness:
  "load_constant (example_config PureCPU) example_env [0, 0] 0
     (example_model [example_const ''w'' 8 True, example_const ''v'' 4 False] DeviceCPU True, 0)
   = Inr (example_model [example_const ''w'' 8 True, example_const ''v'' 4 False] DeviceCPU True, 0)
   \<and> (\<exists>cm. constants_map
              ((example_model [example_const ''w'' 8 True, example_const ''v'' 4 False]
                  DeviceCPU True)
                 \<lparr>constants_map :=
                    Some [''v'' \<mapsto> tensor_args_for (example_config PureCPU) DeviceCPU (- 1)
                                       (example_const ''v'' 4 False) (ConstantsStart 0)],
                  constants :=
                    Some [None, Some (tensor_args_for (example_config PureCPU) DeviceCPU (- 1)
                                        (example_const ''v'' 4 False) (ConstantsStart 0))],
                  trace :=
                    [CreateTensor (tensor_args_for (example_config PureCPU) DeviceCPU (- 1)
                                     (example_const ''v'' 4 False) (ConstantsStart 0))]\<rparr>)
            = Some cm \<and> cm ''w'' = Map.empty ''w'')"
proof -
  let ?m = "example_model [example_const ''w'' 8 True, example_const ''v'' 4 False] DeviceCPU True"
  have h1: "build (example_config PureCPU) = PureCPU" by simp
  have h2: "constants_map ?m = Some Map.empty" by simp
  note t = load_constants_cpu_folded [OF h1 h2, where env = example_env]
  have folded: "info_from_folded (constants_info ?m ! 0)" by simp
  have names: "\<forall>c \<in> set (constants_info ?m). info_name c = ''w'' \<longrightarrow> info_from_folded c"
    by simp
  note t1 = t [THEN conjunct1, rule_format, OF folded, of "[0, 0]" 0]
  note t2 = t [THEN conjunct2, THEN spec, THEN mp, OF example_load_folded,
               THEN conjunct2, THEN conjunct2, THEN spec, THEN mp, OF names]
  from t1 t2 show ?thesis by simp
qed

text \<open>
  C2 as stated fails: after \<open>load_constants\<close> on one folded constant the registry is
  still empty, so there is no entry for the constant that could point at its bytes.
\<close>

theorem load_constants_cpu_folded_counterexample:
  "load_constants (example_config PureCPU) example_env
     (example_model [example_const ''w'' 8 True] DeviceCPU True)
   = Inr ((example_model [example_const ''w'' 8 True] DeviceCPU True)\<lparr>constants := Some [None]\<rparr>)
   \<and> constants_map
       ((example_model [example_const ''w'' 8 True] DeviceCPU True)\<lparr>constants := Some [None]\<rparr>)
     = Some Map.empty"
  by (simp add: load_constants_def upt_rec load_constant_def Let_def bind_err_def
      update_constants_array_from_map_def)

text \<open>
  C10 (amended). When a call of \<open>load_constants\<close> with \<open>include_weights\<close> returns,
  then for every constant with declared data size 0 that is not passed over by the CPU rule
  for folded constants: the tensor constructor was called with the null pointer as data
  pointer, between the effects of the earlier and of the later constants, and returned a
  handle; the handle was emplaced in the registry under the name of the constant, so the
  registry holds under that name the entry it held when the loop reached the constant, and
  the new handle when it held none; the slot of the constant in the constants array holds
  the same entry; in particular the new handle is the entry when the registry had none
  under that name before the call and no earlier loaded constant carries the name, and an
  entry that the registry had before the call is kept; and the read cursor after the
  constant is the one before it.
\<close>

theorem load_constants_zero_size:
  assumes "include_weights m" and "load_constants cfg env m = Inr m'"
    and "i < num_constants m"
    and "info_data_size (constants_info m ! i) = 0"
    and "\<not> (build cfg = PureCPU \<and> info_from_folded (constants_info m ! i))"
  shows "\<exists>h cm0 cm' arr.
           create_tensor_from_blob env
             (tensor_args_for cfg (device_type m) (device_idx m) (constants_info m ! i) Nullptr)
           = Some h
           \<and> ta_data (tensor_args_for cfg (device_type m) (device_idx m)
                        (constants_info m ! i) Nullptr) = Nullptr
           \<and> trace m' = trace m @ alloc_effects cfg m
               @ loop_effects cfg (device_type m) (device_idx m) (constants_info m)
                   (layout_offsets cfg m) [0..<i]
               @ [CreateTensor
                    (tensor_args_for cfg (device_type m) (device_idx m)
                       (constants_info m ! i) Nullptr)]
               @ loop_effects cfg (device_type m) (device_idx m) (constants_info m)
                   (layout_offsets cfg m) [Suc i..<num_constants m]
           \<and> constants_map m = Some cm0 \<and> constants_map m' = Some cm'
           \<and> constants m' = Some arr
           \<and> cm' (info_name (constants_info m ! i)) =
               (case registry_after cfg env (device_type m) (device_idx m) (constants_info m)
                       (layout_offsets cfg m) cm0 i (info_name (constants_info m ! i)) of
                  None \<Rightarrow> Some h
                | Some h0 \<Rightarrow> Some h0)
           \<and> arr ! i = cm' (info_name (constants_info m ! i))
           \<and> (cm0 (info_name (constants_info m ! i)) = None
                \<and> (\<forall>j < i. info_name (constants_info m ! j) = info_name (constants_info m ! i)
                             \<longrightarrow> skipped cfg (constants_info m ! j))
                \<longrightarrow> cm' (info_name (constants_info m ! i)) = Some h)
           \<and> (\<forall>h0. cm0 (info_name (constants_info m ! i)) = Some h0
                \<longrightarrow> cm' (info_name (constants_info m ! i)) = Some h0)
           \<and> read_cursor cfg (constants_info m) (Suc i) = read_cursor cfg (constants_info m) i"
proof -
  let ?infos = "constants_info m"
  let ?n = "length ?infos"
  let ?offs = "layout_offsets cfg m"
  let ?name = "info_name (?infos ! i)"
  let ?args = "tensor_args_for cfg (device_type m) (device_idx m) (?infos ! i) Nullptr"
  let ?reg = "registry_after cfg env (device_type m) (device_idx m) ?infos ?offs"
  from assms(3) have i: "i < ?n" by (simp add: num_constants_def)
  from assms(5) have ns: "\<not> skipped cfg (?infos ! i)" by (simp add: skipped_def)
  from load_constants_Inr [OF assms(1,2)] obtain cm0 arr where
    cm0: "constants_map m = Some cm0"
    and cm': "constants_map m' = Some (?reg cm0 ?n)"
    and tr: "trace m' = trace m @ alloc_effects cfg m
                 @ loop_effects cfg (device_type m) (device_idx m) ?infos ?offs [0..<?n]"
    and arr: "constants m' = Some arr"
    and slots: "\<forall>i < ?n. arr ! i =
                   (case ?reg cm0 ?n (info_name (?infos ! i)) of
                      Some h \<Rightarrow> Some h
                    | None \<Rightarrow> kept_slot (constants m) i)"
    and cr: "\<forall>j < ?n. \<not> skipped cfg (?infos ! j) \<longrightarrow>
                 create_tensor_from_blob env
                   (handle_args cfg (device_type m) (device_idx m) ?infos ?offs j) \<noteq> None"
    by blast
  have ha: "handle_args cfg (device_type m) (device_idx m) ?infos ?offs i = ?args"
    using assms(4) by (simp add: handle_args_def data_ptr_for_def)
  from cr i ns ha obtain h where h: "create_tensor_from_blob env ?args = Some h" by auto
  have step: "?reg cm0 (Suc i) ?name =
                (case ?reg cm0 i ?name of None \<Rightarrow> Some h | Some h0 \<Rightarrow> Some h0)"
    unfolding registry_after_Suc using ns h ha
    by (simp add: registry_step_def emplace_def split: option.splits)
  then have some: "?reg cm0 (Suc i) ?name \<noteq> None" by (simp split: option.splits)
  from i have "Suc i \<le> ?n" by simp
  from registry_after_keeps [OF some this]
  have fin: "?reg cm0 ?n ?name = ?reg cm0 (Suc i) ?name" .
  have entry: "?reg cm0 ?n ?name =
                 (case ?reg cm0 i ?name of None \<Rightarrow> Some h | Some h0 \<Rightarrow> Some h0)"
    using fin step by simp
  have eff: "expected_effects cfg (device_type m) (device_idx m) (?infos ! i) (?offs ! i)
               (read_cursor cfg ?infos i) = [CreateTensor ?args]"
    using ns assms(4) by (simp add: expected_effects_def data_ptr_for_def)
  have tr': "trace m' = trace m @ alloc_effects cfg m
               @ loop_effects cfg (device_type m) (device_idx m) ?infos ?offs [0..<i]
               @ [CreateTensor ?args]
               @ loop_effects cfg (device_type m) (device_idx m) ?infos ?offs
                   [Suc i..<num_constants m]"
    unfolding tr loop_effects_split [OF i] eff num_constants_def ..
  have slot: "arr ! i = ?reg cm0 ?n ?name"
    using slots i some fin by (simp split: option.splits)
  have fresh: "?reg cm0 ?n ?name = Some h"
    if "cm0 ?name = None \<and> (\<forall>j < i. info_name (?infos ! j) = ?name \<longrightarrow> skipped cfg (?infos ! j))"
  proof -
    from that have "\<forall>j < i. \<not> skipped cfg (?infos ! j) \<longrightarrow> info_name (?infos ! j) \<noteq> ?name"
      by auto
    from registry_after_fresh [OF _ this, of cm0] that
    have "?reg cm0 i ?name = None" by simp
    with entry show ?thesis by simp
  qed
  have kept: "?reg cm0 ?n ?name = Some h0" if "cm0 ?name = Some h0" for h0
  proof -
    have "?reg cm0 0 ?name \<noteq> None" using that by (simp add: registry_after_0)
    from registry_after_keeps [OF this, of i] have "?reg cm0 i ?name = Some h0"
      using that by (simp add: registry_after_0)
    with entry show ?thesis by simp
  qed
  have cur: "read_cursor cfg ?infos (Suc i) = read_cursor cfg ?infos i"
    using i ns assms(4) by (simp add: read_cursor_Suc)
  have nullp: "ta_data ?args = Nullptr" by (simp add: tensor_args_for_def)
  show ?thesis
    using h nullp tr' cm0 cm' arr entry slot fresh kept cur by blast
qed

lemma example_load_zero:
  "load_constants (example_config UseCUDA) example_env
     (example_model [example_const ''a'' 100 False, example_const ''z'' 0 False,
                     example_const ''b'' 64 False] DeviceCUDA True)
   = Inr ((example_model [example_const ''a'' 100 False, example_const ''z'' 0 False,
                          example_const ''b'' 64 False] DeviceCUDA True)
            \<lparr>constants_map :=
               Some [''a'' \<mapsto> tensor_args_for (example_config UseCUDA) DeviceCUDA (- 1)
                                  (example_const ''a'' 100 False) (BlobPtr 0),
                     ''z'' \<mapsto> tensor_args_for (example_config UseCUDA) DeviceCUDA (- 1)
                                  (example_const ''z'' 0 False) Nullptr,
                     ''b'' \<mapsto> tensor_args_for (example_config UseCUDA) DeviceCUDA (- 1)
                                  (example_const ''b'' 64 False) (BlobPtr 128)],
             constants :=
               Some [Some (tensor_args_for (example_config UseCUDA) DeviceCUDA (- 1)
                             (example_const ''a'' 100 False) (BlobPtr 0)),
                     Some (tensor_args_for (example_config UseCUDA) DeviceCUDA (- 1)
                             (example_const ''z'' 0 False) Nullptr),
                     Some (tensor_args_for (example_config UseCUDA) DeviceCUDA (- 1)
                             (example_const ''b'' 64 False) (BlobPtr 128))],
             constant_blob := Some 192,
             trace :=
               [GpuMalloc 192,
                Memcpy (BlobPtr 0) (ConstantsStart 0) 100,
                CreateTensor (tensor_args_for (example_config UseCUDA) DeviceCUDA (- 1)
                                (example_const ''a'' 100 False) (BlobPtr 0)),
                CreateTensor (tensor_args_for (example_config UseCUDA) DeviceCUDA (- 1)
                                (example_const ''z'' 0 False) Nullptr),
                Memcpy (BlobPtr 128) (ConstantsStart 100) 64,
                CreateTensor (tensor_args_for (example_config UseCUDA) DeviceCUDA (- 1)
                                (example_const ''b'' 64 False) (BlobPtr 128))]\<rparr>)"
  by (simp add: load_constants_def upt_rec load_constant_def Let_def constant_ptr_def
      get_constants_start_def bind_err_def emplace_def tensor_args_for_def
      update_constants_array_from_map_def compute_gpu_constant_blob_def)


text \<open>
  The theorem in the CUDA build on a constant of size 0 between two others: its tensor is
  built on the null pointer and registered, and the constant after it is read from the
  payload at 100, where the one of size 0 was.
\<close>

theorem load_constants_zero_size_witness:
  "include_weights
     (example_model [example_const ''a'' 100 False, example_const ''z'' 0 False,
                     example_const ''b'' 64 False] DeviceCUDA True)
   \<and> 1 < num_constants
       (example_model [example_const ''a'' 100 False, example_const ''z'' 0 False,
                       example_const ''b'' 64 False] DeviceCUDA True)
   \<and> (\<exists>cm'. constants_map
              ((example_model [example_const ''a'' 100 False, example_const ''z'' 0 False,
                          example_const ''b'' 64 False] DeviceCUDA True)
            \<lparr>constants_map :=
               Some [''a'' \<mapsto> tensor_args_for (example_config UseCUDA) DeviceCUDA (- 1)
                                  (example_const ''a'' 100 False) (BlobPtr 0),
                     ''z'' \<mapsto> tensor_args_for (example_config UseCUDA) DeviceCUDA (- 1)
                                  (example_const ''z'' 0 False) Nullptr,
                     ''b'' \<mapsto> tensor_args_for (example_config UseCUDA) DeviceCUDA (- 1)
                                  (example_const ''b'' 64 False) (BlobPtr 128)],
             constants :=
               Some [Some (tensor_args_for (example_config UseCUDA) DeviceCUDA (- 1)
                             (example_const ''a'' 100 False) (BlobPtr 0)),
                     Some (tensor_args_for (example_config UseCUDA) DeviceCUDA (- 1)
                             (example_const ''z'' 0 False) Nullptr),
                     Some (tensor_args_for (example_config UseCUDA) DeviceCUDA (- 1)
                             (example_const ''b'' 64 False) (BlobPtr 128))],
             constant_blob := Some 192,
             trace :=
               [GpuMalloc 192,
                Memcpy (BlobPtr 0) (ConstantsStart 0) 100,
                CreateTensor (tensor_args_for (example_config UseCUDA) DeviceCUDA (- 1)
                                (example_const ''a'' 100 False) (BlobPtr 0)),
                CreateTensor (tensor_args_for (example_config UseCUDA) DeviceCUDA (- 1)
                                (example_const ''z'' 0 False) Nullptr),
                Memcpy (BlobPtr 128) (ConstantsStart 100) 64,
                CreateTensor (tensor_args_for (example_config UseCUDA) DeviceCUDA (- 1)
                                (example_const ''b'' 64 False) (BlobPtr 128))]\<rparr>) = Some cm'
         \<and> cm' ''z'' = Some (tensor_args_for (example_config UseCUDA) DeviceCUDA (- 1)
                               (example_const ''z'' 0 False) Nullptr))
   \<and> read_cursor (example_config UseCUDA)
       [example_const ''a'' 100 False, example_const ''z'' 0 False, example_const ''b'' 64 False] 2
     = read_cursor (example_config UseCUDA)
       [example_const ''a'' 100 False, example_const ''z'' 0 False, example_const ''b'' 64 False] 1"
proof -
  let ?infos = "[example_const ''a'' 100 False, example_const ''z'' 0 False,
                 example_const ''b'' 64 False]"
  let ?m = "example_model ?infos DeviceCUDA True"
  have h1: "include_weights ?m" by simp
  have h3: "1 < num_constants ?m" by (simp add: num_constants_def)
  have h4: "info_data_size (constants_info ?m ! 1) = 0" by simp
  have h5: "\<not> (build (example_config UseCUDA) = PureCPU \<and> info_from_folded (constants_info ?m ! 1))"
    by simp
  from load_constants_zero_size [OF h1 example_load_zero h3 h4 h5]
  obtain h cm0 cm' arr where
    h: "create_tensor_from_blob example_env
          (tensor_args_for (example_config UseCUDA) (device_type ?m) (device_idx ?m)
             (constants_info ?m ! 1) Nullptr) = Some h"
    and cm0: "constants_map ?m = Some cm0"
    and fresh: "cm0 (info_name (constants_info ?m ! 1)) = None
                \<and> (\<forall>j < 1. info_name (constants_info ?m ! j) = info_name (constants_info ?m ! 1)
                             \<longrightarrow> skipped (example_config UseCUDA) (constants_info ?m ! j))
                \<longrightarrow> cm' (info_name (constants_info ?m ! 1)) = Some h"
    and cur: "read_cursor (example_config UseCUDA) (constants_info ?m) (Suc 1)
              = read_cursor (example_config UseCUDA) (constants_info ?m) 1"
    and cm': "constants_map
              (?m\<lparr>constants_map :=
               Some [''a'' \<mapsto> tensor_args_for (example_config UseCUDA) DeviceCUDA (- 1)
                                  (example_const ''a'' 100 False) (BlobPtr 0),
                     ''z'' \<mapsto> tensor_args_for (example_config UseCUDA) DeviceCUDA (- 1)
                                  (example_const ''z'' 0 False) Nullptr,
                     ''b'' \<mapsto> tensor_args_for (example_config UseCUDA) DeviceCUDA (- 1)
                                  (example_const ''b'' 64 False) (BlobPtr 128)],
             constants :=
               Some [Some (tensor_args_for (example_config UseCUDA) DeviceCUDA (- 1)
                             (example_const ''a'' 100 False) (BlobPtr 0)),
                     Some (tensor_args_for (example_config UseCUDA) DeviceCUDA (- 1)
                             (example_const ''z'' 0 False) Nullptr),
                     Some (tensor_args_for (example_config UseCUDA) DeviceCUDA (- 1)
                             (example_const ''b'' 64 False) (BlobPtr 128))],
             constant_blob := Some 192,
             trace :=
               [GpuMalloc 192,
                Memcpy (BlobPtr 0) (ConstantsStart 0) 100,
                CreateTensor (tensor_args_for (example_config UseCUDA) DeviceCUDA (- 1)
                                (example_const ''a'' 100 False) (BlobPtr 0)),
                CreateTensor (tensor_args_for (example_config UseCUDA) DeviceCUDA (- 1)
                                (example_const ''z'' 0 False) Nullptr),
                Memcpy (BlobPtr 128) (ConstantsStart 100) 64,
                CreateTensor (tensor_args_for (example_config UseCUDA) DeviceCUDA (- 1)
                                (example_const ''b'' 64 False) (BlobPtr 128))]\<rparr>) = Some cm'"
    by blast
  from cm0 have e: "cm0 = Map.empty" by simp
  from h have hh: "h = tensor_args_for (example_config UseCUDA) DeviceCUDA (- 1)
                         (example_const ''z'' 0 False) Nullptr" by simp
  from fresh e hh have z: "cm' ''z'' = Some (tensor_args_for (example_config UseCUDA) DeviceCUDA (- 1)
                               (example_const ''z'' 0 False) Nullptr)" by simp
  have c2: "read_cursor (example_config UseCUDA) ?infos 2 = read_cursor (example_config UseCUDA) ?infos 1"
    using cur by (simp add: numeral_2_eq_2)
  from h1 h3 cm' z c2 show ?thesis by blast
qed


text \<open>
  C10 as stated fails: when the registry already has an entry under the name of the
  constant, the tensor is constructed but \<open>emplace\<close> keeps the old entry, and the new
  handle is in the registry nowhere.
\<close>

theorem load_constants_zero_size_counterexample:
  "load_constants (example_config PureCPU) example_env
     ((example_model [example_const ''z'' 0 False] DeviceCPU True)
        \<lparr>constants_map := Some [''z'' \<mapsto> example_handle 7]\<rparr>)
   = Inr ((example_model [example_const ''z'' 0 False] DeviceCPU True)
            \<lparr>constants_map := Some [''z'' \<mapsto> example_handle 7],
             constants := Some [Some (example_handle 7)],
             trace :=
               [CreateTensor (tensor_args_for (example_config PureCPU) DeviceCPU (- 1)
                                (example_const ''z'' 0 False) Nullptr)]\<rparr>)
   \<and> create_tensor_from_blob example_env
       (tensor_args_for (example_config PureCPU) DeviceCPU (- 1)
          (example_const ''z'' 0 False) Nullptr)
     = Some (tensor_args_for (example_config PureCPU) DeviceCPU (- 1)
               (example_const ''z'' 0 False) Nullptr)
   \<and> tensor_args_for (example_config PureCPU) DeviceCPU (- 1)
          (example_const ''z'' 0 False) Nullptr \<noteq> example_handle 7"
  by (simp add: load_constants_def upt_rec load_constant_def Let_def constant_ptr_def
      get_constants_start_def bind_err_def emplace_def tensor_args_for_def
      update_constants_array_from_map_def example_handle_def)


text \<open>
  C8 (amended). With \<open>include_weights = false\<close> and a map installed,
  \<open>load_constants\<close> returns the instance as it was when the device is the CPU or the
  build is the pure CPU one; otherwise it lays out the device blob and allocates it, which
  is the only effect and the only change besides \<open>constant_blob_\<close> (or it throws when
  \<open>cudaMalloc\<close> fails). In every case the registry map, the constants array and the
  payload mapping are unchanged, nothing is read from the payload and no tensor is
  constructed.
\<close>

theorem load_constants_without_weights:
  assumes "\<not> include_weights m" and "constants_map m = Some cm"
  shows "load_constants cfg env m =
           (if device_type m = DeviceCPU \<or> build cfg = PureCPU then Inr m
            else if build cfg = UseCUDA
                    \<and> \<not> gpu_malloc_ok env (blob_prefix (constants_info m) (num_constants m))
            then Inl DeviceError
            else Inr (m\<lparr>constant_blob := Some (blob_prefix (constants_info m) (num_constants m)),
                         trace := trace m @
                           [GpuMalloc (blob_prefix (constants_info m) (num_constants m))]\<rparr>))
         \<and> (\<forall>m'. load_constants cfg env m = Inr m' \<longrightarrow>
               constants_map m' = constants_map m
               \<and> constants m' = constants m
               \<and> self_mmap m' = self_mmap m
               \<and> (\<exists>es. trace m' = trace m @ es \<and> (\<forall>e \<in> set es. \<exists>n. e = GpuMalloc n)))"
proof -
  let ?n = "length (constants_info m)"
  let ?B = "blob_prefix (constants_info m) (num_constants m)"
  let ?rhs = "if device_type m = DeviceCPU \<or> build cfg = PureCPU then Inr m
            else if build cfg = UseCUDA \<and> \<not> gpu_malloc_ok env ?B
            then Inl DeviceError
            else Inr (m\<lparr>constant_blob := Some ?B, trace := trace m @ [GpuMalloc ?B]\<rparr>)"
  have eq: "load_constants cfg env m = ?rhs"
  proof (cases "device_type m = DeviceCPU")
    case True
    with assms show ?thesis by (simp add: load_constants_def Let_def bind_err_def)
  next
    case dev: False
    show ?thesis
    proof (cases "build cfg = PureCPU")
      case True
      with assms dev show ?thesis
        by (simp add: load_constants_def Let_def bind_err_def compute_gpu_constant_blob_cpu)
    next
      case False
      have "compute_gpu_constant_blob cfg (constants_info m) (0, replicate ?n 0) =
              (blob_prefix (constants_info m) ?n, map (blob_prefix (constants_info m)) [0..<?n])"
        using False by (intro compute_gpu_constant_blob_eq) simp_all
      with assms dev False show ?thesis
        by (simp add: load_constants_def Let_def bind_err_def num_constants_def)
    qed
  qed
  have "constants_map m' = constants_map m \<and> constants m' = constants m
        \<and> self_mmap m' = self_mmap m
        \<and> (\<exists>es. trace m' = trace m @ es \<and> (\<forall>e \<in> set es. \<exists>n. e = GpuMalloc n))"
    if "?rhs = Inr m'" for m'
  proof (cases "device_type m = DeviceCPU \<or> build cfg = PureCPU")
    case True
    with that have "m' = m" by simp
    then show ?thesis by simp
  next
    case False
    with that have "m' = m\<lparr>constant_blob := Some ?B, trace := trace m @ [GpuMalloc ?B]\<rparr>"
      by (simp split: if_splits)
    then show ?thesis by simp
  qed
  with eq show ?thesis by simp
qed

text \<open>The theorem in the pure CPU build.\<close>

theorem load_constants_without_weights_witness:
  "\<not> include_weights (example_model [example_const ''a'' 100 False] DeviceCPU False)
   \<and> constants_map (example_model [example_const ''a'' 100 False] DeviceCPU False) = Some Map.empty
   \<and> load_constants (example_config PureCPU) example_env
        (example_model [example_const ''a'' 100 False] DeviceCPU False)
      = Inr (example_model [example_const ''a'' 100 False] DeviceCPU False)"
proof -
  let ?m = "example_model [example_const ''a'' 100 False] DeviceCPU False"
  have h1: "\<not> include_weights ?m" by simp
  have h2: "constants_map ?m = Some Map.empty" by simp
  show ?thesis
    using load_constants_without_weights [OF h1 h2, of "example_config PureCPU" example_env]
    by simp
qed

text \<open>
  C8 as stated fails: in the CUDA build on a CUDA device the call also allocates the device
  blob, here 128 bytes for one constant of 100 bytes.
\<close>

theorem load_constants_without_weights_counterexample:
  "load_constants (example_config UseCUDA) example_env
     (example_model [example_const ''a'' 100 False] DeviceCUDA False)
   = Inr ((example_model [example_const ''a'' 100 False] DeviceCUDA False)
            \<lparr>constant_blob := Some 128, trace := [GpuMalloc 128]\<rparr>)"
  by (simp add: load_constants_def Let_def bind_err_def compute_gpu_constant_blob_def upt_rec)


section \<open>The binary payload accessor\<close>

lemma mmap_region_length: "length (mmap_region file off len) = len"
  by (simp add: mmap_region_def Let_def)

lemma aligned_16k_iff:
  fixes w :: "64 word"
  shows "w AND 0x3fff = 0 \<longleftrightarrow> 16384 dvd unat w"
proof -
  have m: "(0x3fff :: 64 word) = mask 14" by (simp add: mask_eq_exp_minus_1)
  have t: "w AND 0x3fff = take_bit 14 w" unfolding m by (simp add: take_bit_eq_mask)
  have u: "unat (take_bit 14 w) = unat w mod 16384"
    by (simp add: unsigned_take_bit_eq take_bit_eq_mod unat_mod_distrib)
  have "w AND 0x3fff = 0 \<longleftrightarrow> unat (take_bit 14 w) = 0"
    unfolding t by (simp only: unat_eq_0)
  then show ?thesis unfolding u by (simp add: dvd_eq_mod_eq_0)
qed

lemma get_constants_start_fresh:
  assumes "use_mmap_self cfg" and "self_mmap m = None"
  shows "get_constants_start cfg art m =
     (if \<not> dladdr_ok art then (m, Inl SharedLibraryNameNotFound)
      else if \<not> open_ok art then (m, Inl SharedLibraryCannotBeOpened)
      else if weights_offset_of art AND 0x3fff \<noteq> 0 then (m, Inl WeightsOffsetNotAligned)
      else if \<not> mmap_ok art then (m, Inl MmapFailed)
      else if unat (header_weights_size art) < 8
      then (m\<lparr>self_mmap := Some (mapped_payload art)\<rparr>, Inl ReadOutsideMapping)
      else if trailing_magic art \<noteq> header_magic_number art
      then (m\<lparr>self_mmap := Some (mapped_payload art)\<rparr>, Inl WeightsCorrupt)
      else (m\<lparr>self_mmap := Some (mapped_payload art)\<rparr>, Inr (ConstantsStart 0)))"
  using assms
  by (simp add: get_constants_start_def Let_def weights_offset_of_def mapped_payload_def
      trailing_magic_def)

text \<open>
  The first call in self-map mode, on an instance that holds no mapping yet:
  \<open>weights_offset\<close> is \<open>fsize - weights_size\<close>; the check
  \<open>(weights_offset & 0x3fff) == 0\<close> says that it is a multiple of 16 KiB, and the call
  throws when it is not; the call throws when the word in the last eight bytes of the mapped
  payload differs from the magic number of the header; and when the library is found, opened
  and mapped, the offset is aligned, the payload has room for the trailing word and that
  word equals the magic number, the call succeeds and the mapping holds exactly
  \<open>weights_size\<close> bytes.
\<close>

lemma get_constants_start_first_call:
  assumes "use_mmap_self cfg" and "self_mmap m = None"
  shows "(weights_offset_of art AND 0x3fff = 0 \<longleftrightarrow> 16384 dvd unat (weights_offset_of art))
     \<and> (weights_offset_of art AND 0x3fff \<noteq> 0 \<longrightarrow>
           (\<exists>e. snd (get_constants_start cfg art m) = Inl e))
     \<and> (dladdr_ok art \<and> open_ok art \<and> weights_offset_of art AND 0x3fff \<noteq> 0 \<longrightarrow>
           get_constants_start cfg art m = (m, Inl WeightsOffsetNotAligned))
     \<and> (trailing_magic art \<noteq> header_magic_number art \<longrightarrow>
           (\<exists>e. snd (get_constants_start cfg art m) = Inl e))
     \<and> (dladdr_ok art \<and> open_ok art \<and> weights_offset_of art AND 0x3fff = 0 \<and> mmap_ok art
          \<and> 8 \<le> unat (header_weights_size art)
          \<and> trailing_magic art \<noteq> header_magic_number art \<longrightarrow>
           snd (get_constants_start cfg art m) = Inl WeightsCorrupt)
     \<and> (dladdr_ok art \<and> open_ok art \<and> weights_offset_of art AND 0x3fff = 0 \<and> mmap_ok art
          \<and> 8 \<le> unat (header_weights_size art)
          \<and> trailing_magic art = header_magic_number art \<longrightarrow>
           get_constants_start cfg art m =
             (m\<lparr>self_mmap := Some (mapped_payload art)\<rparr>, Inr (ConstantsStart 0))
           \<and> length (mapped_payload art) = unat (header_weights_size art))"
  unfolding get_constants_start_fresh [OF assms] aligned_16k_iff
  by (simp add: mapped_payload_def mmap_region_length)

text \<open>
  Once a mapping is held the accessor returns it without looking at the file again. The
  mapping is stored before the trailing word is checked, so this is also what a second call
  does after a first one has thrown on a corrupt payload.
\<close>

lemma get_constants_start_memoized:
  "use_mmap_self cfg \<Longrightarrow> self_mmap m \<noteq> None \<Longrightarrow>
   get_constants_start cfg art m = (m, Inr (ConstantsStart 0))"
  by (simp add: get_constants_start_def)

lemma get_constants_start_after_corrupt:
  assumes "use_mmap_self cfg"
    and "get_constants_start cfg art m = (m1, Inl WeightsCorrupt)"
  shows "get_constants_start cfg art m1 = (m1, Inr (ConstantsStart 0))"
proof -
  have "self_mmap m = None"
    using assms by (auto simp: get_constants_start_def split: if_splits)
  from assms(2) have "self_mmap m1 \<noteq> None"
    unfolding get_constants_start_fresh [OF assms(1) \<open>self_mmap m = None\<close>]
    by (auto split: if_splits)
  with assms(1) show ?thesis by (rule get_constants_start_memoized)
qed

text \<open>The example of the specification: 1024 bytes behind 16 KiB.\<close>

lemma example_artifact_offset: "weights_offset_of (example_artifact t) = 16384"
  by (simp add: weights_offset_of_def example_artifact_def)

lemma example_artifact_payload:
  "mapped_payload (example_artifact t) =
     replicate 1016 0 @ [ucast t, ucast (drop_bit 8 t), 0, 0, 0, 0, 0, 0]"
  by (simp add: mapped_payload_def example_artifact_offset mmap_region_def Let_def)
    (simp add: example_artifact_def)

lemma example_artifact_trailing_ok: "trailing_magic (example_artifact 0xABCD) = 0xABCD"
  by (simp add: trailing_magic_def example_artifact_payload)
    (simp add: example_artifact_def read_u64_def)

lemma example_artifact_trailing_bad: "trailing_magic (example_artifact 0xABCE) = 0xABCE"
  by (simp add: trailing_magic_def example_artifact_payload)
    (simp add: example_artifact_def read_u64_def)


text \<open>
  The first call on the example: with the trailing word \<open>0xABCD\<close> the payload is located
  and has 1024 bytes; with \<open>0xABCE\<close> the call throws.
\<close>

lemma get_constants_start_first_call_example:
  "get_constants_start \<lparr>build = PureCPU, use_mmap_self = True, use_create_tensor_from_blob_v1 = False\<rparr>
     (example_artifact 0xABCD) (example_model [] DeviceCPU True)
   = ((example_model [] DeviceCPU True)\<lparr>self_mmap := Some (mapped_payload (example_artifact 0xABCD))\<rparr>,
      Inr (ConstantsStart 0))
   \<and> length (mapped_payload (example_artifact 0xABCD)) = 1024
   \<and> snd (get_constants_start
            \<lparr>build = PureCPU, use_mmap_self = True, use_create_tensor_from_blob_v1 = False\<rparr>
            (example_artifact 0xABCE) (example_model [] DeviceCPU True)) = Inl WeightsCorrupt"
proof -
  let ?cfg = "\<lparr>build = PureCPU, use_mmap_self = True, use_create_tensor_from_blob_v1 = False\<rparr>"
  let ?m = "example_model [] DeviceCPU True"
  have h1: "use_mmap_self ?cfg" by simp
  have h2: "self_mmap ?m = None" by simp
  show ?thesis
    using get_constants_start_first_call [OF h1 h2, of "example_artifact 0xABCD"]
      get_constants_start_first_call [OF h1 h2, of "example_artifact 0xABCE"]
    by (simp add: example_artifact_offset example_artifact_trailing_ok
        example_artifact_trailing_bad)
qed

text \<open>
  C5 as stated fails on a second call. The mapping is assigned to \<open>self_mmap\<close> before
  the trailing word is compared with the magic number of the header, and a call that finds
  a mapping returns it unchecked. On the artifact of the specification's example with the
  trailing word \<open>0xABCE\<close> in place of \<open>0xABCD\<close>, the first call throws for the
  corrupt payload and leaves the mapping behind; the second call on the same instance
  returns that mapping, although the trailing word still differs.
\<close>

theorem get_constants_start_retry_after_corrupt:
  "trailing_magic (example_artifact 0xABCE) \<noteq> header_magic_number (example_artifact 0xABCE)
   \<and> get_constants_start
         \<lparr>build = PureCPU, use_mmap_self = True, use_create_tensor_from_blob_v1 = False\<rparr>
         (example_artifact 0xABCE) (example_model [] DeviceCPU True)
       = ((example_model [] DeviceCPU True)
            \<lparr>self_mmap := Some (mapped_payload (example_artifact 0xABCE))\<rparr>,
          Inl WeightsCorrupt)
   \<and> get_constants_start
         \<lparr>build = PureCPU, use_mmap_self = True, use_create_tensor_from_blob_v1 = False\<rparr>
         (example_artifact 0xABCE)
         ((example_model [] DeviceCPU True)
            \<lparr>self_mmap := Some (mapped_payload (example_artifact 0xABCE))\<rparr>)
       = ((example_model [] DeviceCPU True)
            \<lparr>self_mmap := Some (mapped_payload (example_artifact 0xABCE))\<rparr>,
          Inr (ConstantsStart 0))"
proof -
  let ?cfg = "\<lparr>build = PureCPU, use_mmap_self = True, use_create_tensor_from_blob_v1 = False\<rparr>"
  let ?m = "example_model [] DeviceCPU True"
  have h1: "use_mmap_self ?cfg" by simp
  have h2: "self_mmap ?m = None" by simp
  have first: "get_constants_start ?cfg (example_artifact 0xABCE) ?m
                 = (?m\<lparr>self_mmap := Some (mapped_payload (example_artifact 0xABCE))\<rparr>,
                    Inl WeightsCorrupt)"
    unfolding get_constants_start_fresh [OF h1 h2]
    by (simp add: example_artifact_offset example_artifact_trailing_bad)
  have second: "get_constants_start ?cfg (example_artifact 0xABCE)
                  (?m\<lparr>self_mmap := Some (mapped_payload (example_artifact 0xABCE))\<rparr>)
                = (?m\<lparr>self_mmap := Some (mapped_payload (example_artifact 0xABCE))\<rparr>,
                   Inr (ConstantsStart 0))"
    by (rule get_constants_start_memoized) simp_all
  show ?thesis
    using first second by (simp add: example_artifact_trailing_bad)
qed


section \<open>The execution lifecycle\<close>






















end
